theory Spec2Isabelle
  imports Complex_Main "HOL-Library.Sublist"
begin

section \<open>Python values the notebook code relies on\<close>

text \<open>
  The functions verified here are the helper functions of the example notebook
  \<^verbatim>\<open>examples/04 Read and use Litematica files.ipynb\<close>: \<^verbatim>\<open>modify_start_location\<close>,
  \<^verbatim>\<open>to_block\<close>, \<^verbatim>\<open>create_blocks\<close>, \<^verbatim>\<open>fill\<close>, \<^verbatim>\<open>split_list\<close>, \<^verbatim>\<open>build_region\<close> and
  \<^verbatim>\<open>clear_region\<close>. Python integers are unbounded, so they are \<^typ>\<open>int\<close>.
  A raised exception is the \<open>Inl\<close> branch of a sum; the type parameter \<open>'e\<close> stands
  for whatever the connection object raises.
\<close>

datatype 'e error =
    ValueError           \<comment> \<open>zero \<^verbatim>\<open>range\<close> step, or a tuple unpacking of the wrong length\<close>
  | UnboundLocalError    \<comment> \<open>a local variable read before any assignment\<close>
  | Raised 'e            \<comment> \<open>an exception raised inside a \<^verbatim>\<open>Connection\<close> method\<close>

subsection \<open>\<^verbatim>\<open>range(start, stop, step)\<close>\<close>

text \<open>
  The number of elements of a range, as CPython computes it: with a positive step the
  range is empty unless \<open>start < stop\<close>, with a negative step unless \<open>stop < start\<close>;
  otherwise it has \<open>(hi - lo - 1) // |step| + 1\<close> elements.
\<close>

definition range_length :: "int \<Rightarrow> int \<Rightarrow> int \<Rightarrow> nat" where
  "range_length start stop step =
     (if 0 < step then (if start < stop then nat ((stop - start - 1) div step + 1) else 0)
      else if step < 0 then (if stop < start then nat ((start - stop - 1) div (- step) + 1) else 0)
      else 0)"

text \<open>\<^verbatim>\<open>range\<close> raises \<^verbatim>\<open>ValueError\<close> when the step is zero.\<close>

definition py_range :: "int \<Rightarrow> int \<Rightarrow> int \<Rightarrow> 'e error + int list" where
  "py_range start stop step =
     (if step = 0 then Inl ValueError
      else Inr (map (\<lambda>j. start + int j * step) [0..<range_length start stop step]))"

subsection \<open>Slices \<^verbatim>\<open>xs[i:j]\<close>\<close>

text \<open>
  A slice bound is adjusted to the list: a negative bound counts from the end and is
  clipped at 0, a bound beyond the end is clipped at the length. The slice is empty when
  the adjusted start is not below the adjusted stop.
\<close>

definition slice_index :: "nat \<Rightarrow> int \<Rightarrow> nat" where
  "slice_index n i =
     (if i < 0 then (if i + int n < 0 then 0 else nat (i + int n))
      else if int n < i then n else nat i)"

definition py_slice :: "'a list \<Rightarrow> int \<Rightarrow> int \<Rightarrow> 'a list" where
  "py_slice xs i j =
     (let a = slice_index (length xs) i; b = slice_index (length xs) j
      in take (b - a) (drop a xs))"

section \<open>Splitting a list into chunks\<close>

text \<open>
  \<^verbatim>\<open>
  def split_list(my_list, sublist_size):
      return [my_list[i:i+sublist_size] for i in range(0, len(my_list), sublist_size)]
  \<close>
\<close>

definition split_list :: "'a list \<Rightarrow> int \<Rightarrow> 'e error + 'a list list" where
  "split_list my_list sublist_size =
     (case py_range 0 (int (length my_list)) sublist_size of
        Inl e \<Rightarrow> Inl e
      | Inr idxs \<Rightarrow> Inr (map (\<lambda>i. py_slice my_list i (i + sublist_size)) idxs))"

section \<open>Domain values\<close>

text \<open>
  Modelled from the spec: the classes \<^verbatim>\<open>Location\<close> and \<^verbatim>\<open>Block\<close> of \<^verbatim>\<open>mcms.data\<close> are
  imported by the notebook but their declarations are not among the source files. The
  data model gives a Location three integer coordinates \<^verbatim>\<open>x, y, z\<close> (selectors
  \<open>loc_x\<close>, \<open>loc_y\<close>, \<open>loc_z\<close> here, so that \<open>x\<close>, \<open>y\<close> and \<open>z\<close> stay variables) and a
  Block the fields \<^verbatim>\<open>namespace\<close> (default \<^verbatim>\<open>"minecraft"\<close>), \<^verbatim>\<open>name\<close>, \<^verbatim>\<open>location\<close>,
  \<^verbatim>\<open>state\<close> (a mapping of property name to string value) and \<^verbatim>\<open>inventory\<close> (an ordered
  sequence of ItemStack: name, slot index, count, enchantments; an Enchantment is a name
  and a level). A Block built without \<^verbatim>\<open>state\<close> or \<^verbatim>\<open>inventory\<close> has the empty mapping
  and the empty sequence.
\<close>

record enchantment =
  ench_name :: string
  level :: int

record item_stack =
  item_name :: string
  slot_index :: int
  item_count :: int
  enchantments :: "enchantment list"

record location =
  loc_x :: int
  loc_y :: int
  loc_z :: int

record block =
  namespace :: string
  name :: string
  location :: location
  state :: "string \<rightharpoonup> string"
  inventory :: "item_stack list"

definition default_namespace :: string where
  "default_namespace = ''minecraft''"

text \<open>\<^verbatim>\<open>Block(name=n, location=l)\<close>: every other field takes its default.\<close>

definition named_block :: "string \<Rightarrow> location \<Rightarrow> block" where
  "named_block n l =
     \<lparr>namespace = default_namespace, name = n, location = l, state = Map.empty, inventory = []\<rparr>"

subsection \<open>The schematic reader's interface\<close>

text \<open>
  The schematic reader (\<^verbatim>\<open>litemapy\<close>) is an external collaborator; only what the
  notebook calls is modelled, as data. A \<^verbatim>\<open>BlockState\<close> has an \<^verbatim>\<open>id\<close> (a string such as
  \<^verbatim>\<open>minecraft:oak_stairs\<close>) and \<^verbatim>\<open>to_nbt()\<close>, of which the code reads only the entry
  \<^verbatim>\<open>"Properties"\<close>: \<open>nbt_Properties\<close> is \<open>None\<close> when the key is absent, and otherwise
  the key/value pairs in the order \<^verbatim>\<open>.items()\<close> yields them, after \<^verbatim>\<open>str()\<close>.
  A \<^verbatim>\<open>Region\<close> offers \<^verbatim>\<open>min_x()\<close>, \<^verbatim>\<open>min_y()\<close>, \<^verbatim>\<open>min_z()\<close>, the three coordinate
  ranges (the integers they iterate over, in order) and \<^verbatim>\<open>region[x, y, z]\<close>.
\<close>

record block_state =
  block_id :: string
  nbt_Properties :: "(string \<times> string) list option"

record region =
  min_x :: int
  min_y :: int
  min_z :: int
  xrange :: "int list"
  yrange :: "int list"
  zrange :: "int list"
  getitem :: "int \<times> int \<times> int \<Rightarrow> block_state"

section \<open>From schematic cells to blocks\<close>

text \<open>
  \<^verbatim>\<open>
  def modify_start_location(location, region):
      return Location(x=location.x - region.min_x()-1, y=location.y - region.min_y()-1,
                      z=location.z - region.min_z()-1)
  \<close>
\<close>

definition modify_start_location :: "location \<Rightarrow> region \<Rightarrow> location" where
  "modify_start_location loc reg =
     \<lparr>loc_x = loc_x loc - min_x reg - 1,
      loc_y = loc_y loc - min_y reg - 1,
      loc_z = loc_z loc - min_z reg - 1\<rparr>"

text \<open>\<^verbatim>\<open>s.split(sep)\<close> for a one-character separator: \<open>n\<close> separators give \<open>n + 1\<close> parts.\<close>

fun str_split :: "char \<Rightarrow> string \<Rightarrow> string list" where
  "str_split sep [] = [[]]"
| "str_split sep (c # cs) =
     (if c = sep then [] # str_split sep cs
      else (case str_split sep cs of
              [] \<Rightarrow> [[c]]
            | p # ps \<Rightarrow> (c # p) # ps))"

text \<open>
  \<^verbatim>\<open>
  def to_block(block_state, location):
      namespace, name = block_state.id.split(":")
      state = {}
      nbt = block_state.to_nbt()
      if "Properties" in nbt:
          for k, v in nbt["Properties"].items():
              state[str(k)] = str(v)
      return Block(namespace=namespace, name=name, location=location, state=state)
  \<close>
  Unpacking into \<^verbatim>\<open>namespace, name\<close> raises \<^verbatim>\<open>ValueError\<close> unless the split has
  exactly two parts.
\<close>

definition to_block :: "block_state \<Rightarrow> location \<Rightarrow> 'e error + block" where
  "to_block bs loc =
     (case str_split CHR '':'' (block_id bs) of
        [ns, nm] \<Rightarrow>
          Inr \<lparr>namespace = ns, name = nm, location = loc,
               state = (case nbt_Properties bs of
                          None \<Rightarrow> Map.empty
                        | Some kvs \<Rightarrow> fold (\<lambda>(k, v) st. st(k \<mapsto> v)) kvs Map.empty),
               inventory = []\<rparr>
      | _ \<Rightarrow> Inl ValueError)"

text \<open>
  \<^verbatim>\<open>
  def create_blocks(region, start, default_block_name=None):
      start_location = modify_start_location(start, region)
      blocks = []
      for x in region.xrange():
          for y in region.yrange():
              for z in region.zrange():
                  block_state = region[x, y, z]
                  if block_state.id == "minecraft:air":
                      continue
                  location = Location(x=x + start_location.x, y=y + start_location.y,
                                      z=z + start_location.z)
                  if default_block_name is not None:
                      block = Block(name=default_block_name, location=location)
                  else:
                      block = to_block(block_state, location)
                  blocks.append(block)
      return blocks
  \<close>
  One function per loop; \<open>blocks\<close> is the list built so far, and an exception leaves
  all three loops at once.
\<close>

fun create_blocks_z ::
  "region \<Rightarrow> location \<Rightarrow> string option \<Rightarrow> int \<Rightarrow> int \<Rightarrow> int list \<Rightarrow> block list
     \<Rightarrow> 'e error + block list" where
  "create_blocks_z reg start_location default_block_name x y [] blocks = Inr blocks"
| "create_blocks_z reg start_location default_block_name x y (z # zs) blocks =
     (let bs = getitem reg (x, y, z) in
      if block_id bs = ''minecraft:air''
      then create_blocks_z reg start_location default_block_name x y zs blocks
      else
        let loc = \<lparr>loc_x = x + loc_x start_location,
                   loc_y = y + loc_y start_location,
                   loc_z = z + loc_z start_location\<rparr> in
        (case (case default_block_name of
                 Some n \<Rightarrow> Inr (named_block n loc)
               | None \<Rightarrow> to_block bs loc) of
           Inl e \<Rightarrow> Inl e
         | Inr b \<Rightarrow>
             create_blocks_z reg start_location default_block_name x y zs (blocks @ [b])))"

fun create_blocks_y ::
  "region \<Rightarrow> location \<Rightarrow> string option \<Rightarrow> int \<Rightarrow> int list \<Rightarrow> block list
     \<Rightarrow> 'e error + block list" where
  "create_blocks_y reg start_location default_block_name x [] blocks = Inr blocks"
| "create_blocks_y reg start_location default_block_name x (y # ys) blocks =
     (case create_blocks_z reg start_location default_block_name x y (zrange reg) blocks of
        Inl e \<Rightarrow> Inl e
      | Inr blocks' \<Rightarrow> create_blocks_y reg start_location default_block_name x ys blocks')"

fun create_blocks_x ::
  "region \<Rightarrow> location \<Rightarrow> string option \<Rightarrow> int list \<Rightarrow> block list
     \<Rightarrow> 'e error + block list" where
  "create_blocks_x reg start_location default_block_name [] blocks = Inr blocks"
| "create_blocks_x reg start_location default_block_name (x # xs) blocks =
     (case create_blocks_y reg start_location default_block_name x (yrange reg) blocks of
        Inl e \<Rightarrow> Inl e
      | Inr blocks' \<Rightarrow> create_blocks_x reg start_location default_block_name xs blocks')"

definition create_blocks ::
  "region \<Rightarrow> location \<Rightarrow> string option \<Rightarrow> 'e error + block list" where
  "create_blocks reg start default_block_name =
     create_blocks_x reg (modify_start_location start reg) default_block_name (xrange reg) []"

text \<open>
  \<^verbatim>\<open>
  def fill(block, x_length=1, y_length=1, z_length=1):
      blocks = []
      for x in range(0, x_length):
          for y in range(0, y_length):
              for z in range(0, z_length):
                  blocks.append(Block(namespace=block.namespace, name=block.name,
                      location=Location(x=block.location.x + x, y=block.location.y + y,
                                        z=block.location.z + z),
                      state=block.state, inventory=block.inventory))
      return blocks
  \<close>
  The three lengths are passed explicitly; a caller that omits one passes 1.
  \<open>range(0, n)\<close> has step 1 and cannot raise.
\<close>

definition range0 :: "int \<Rightarrow> int list" where
  "range0 n = map (\<lambda>j. 0 + int j * 1) [0..<range_length 0 n 1]"

definition fill :: "block \<Rightarrow> int \<Rightarrow> int \<Rightarrow> int \<Rightarrow> block list" where
  "fill b x_length y_length z_length =
     [\<lparr>namespace = namespace b, name = name b,
       location = \<lparr>loc_x = loc_x (location b) + x,
                   loc_y = loc_y (location b) + y,
                   loc_z = loc_z (location b) + z\<rparr>,
       state = state b, inventory = inventory b\<rparr>.
      x \<leftarrow> range0 x_length, y \<leftarrow> range0 y_length, z \<leftarrow> range0 z_length]"

section \<open>Bulk operations over a connection\<close>

text \<open>
  \<^verbatim>\<open>Connection.set_blocks(blocks, timeout=...)\<close> belongs to \<^verbatim>\<open>mcms.connection\<close>, which is
  not among the source files, so it is a parameter of the model: from the state of the
  connection (and of the server behind it), the chunk and the timeout it gives either an
  exception (\<open>Inl\<close>) or the returned pair of a status and a payload (\<open>Inr\<close>), and the
  state afterwards.
\<close>

type_synonym ('c, 'e, 'p) set_blocks =
  "'c \<Rightarrow> block list \<Rightarrow> int \<Rightarrow> ('e + int \<times> 'p) \<times> 'c"

text \<open>
  The loop \<^verbatim>\<open>for b in tqdm.tqdm(blocks_set, ncols=100): result = connection.set_blocks(b,
  timeout=timeout)\<close>. The progress bar only iterates over the list. \<open>result\<close> is \<open>None\<close>
  until the first assignment; an exception from \<^verbatim>\<open>set_blocks\<close> leaves the loop.
\<close>

fun set_blocks_loop ::
  "('c, 'e, 'p) set_blocks \<Rightarrow> int \<Rightarrow> block list list \<Rightarrow> (int \<times> 'p) option \<Rightarrow> 'c
     \<Rightarrow> ('e error + (int \<times> 'p) option) \<times> 'c" where
  "set_blocks_loop set_blocks timeout [] result conn = (Inr result, conn)"
| "set_blocks_loop set_blocks timeout (b # blocks_set) result conn =
     (case set_blocks conn b timeout of
        (Inl e, conn') \<Rightarrow> (Inl (Raised e), conn')
      | (Inr r, conn') \<Rightarrow> set_blocks_loop set_blocks timeout blocks_set (Some r) conn')"

text \<open>
  \<^verbatim>\<open>
  def build_region(connection, region, start, split_size=10000, timeout=300):
      blocks = create_blocks(region, start)
      blocks_set = split_list(blocks, split_size)
      for b in tqdm.tqdm(blocks_set, ncols=100):
          result = connection.set_blocks(b, timeout=timeout)
      return result[0]
  \<close>
  (the \<^verbatim>\<open>print\<close> calls are left out). An argument the caller omits is \<open>None\<close> and takes
  the default of the signature. \<^verbatim>\<open>return result[0]\<close> raises \<^verbatim>\<open>UnboundLocalError\<close> when
  the loop body never ran.
\<close>

definition build_region ::
  "('c, 'e, 'p) set_blocks \<Rightarrow> 'c \<Rightarrow> region \<Rightarrow> location \<Rightarrow> int option \<Rightarrow> int option
     \<Rightarrow> ('e error + int) \<times> 'c" where
  "build_region set_blocks connection reg start split_size timeout =
     (case create_blocks reg start None of
        Inl e \<Rightarrow> (Inl e, connection)
      | Inr blocks \<Rightarrow>
          (case split_list blocks (case split_size of None \<Rightarrow> 10000 | Some k \<Rightarrow> k) of
             Inl e \<Rightarrow> (Inl e, connection)
           | Inr blocks_set \<Rightarrow>
               (case set_blocks_loop set_blocks (case timeout of None \<Rightarrow> 300 | Some t \<Rightarrow> t)
                       blocks_set None connection of
                  (Inl e, conn') \<Rightarrow> (Inl e, conn')
                | (Inr None, conn') \<Rightarrow> (Inl UnboundLocalError, conn')
                | (Inr (Some result), conn') \<Rightarrow> (Inr (fst result), conn'))))"

text \<open>
  \<^verbatim>\<open>
  def clear_region(connection, region, start, split_size=10000, timeout=300):
      blocks = create_blocks(region, start, default_block_name="air")
      blocks_set = split_list(blocks, split_size)
      for b in tqdm.tqdm(blocks_set, ncols=100):
          result = connection.set_blocks(b, timeout=timeout)
      return result[0]
  \<close>
\<close>

definition clear_region ::
  "('c, 'e, 'p) set_blocks \<Rightarrow> 'c \<Rightarrow> region \<Rightarrow> location \<Rightarrow> int option \<Rightarrow> int option
     \<Rightarrow> ('e error + int) \<times> 'c" where
  "clear_region set_blocks connection reg start split_size timeout =
     (case create_blocks reg start (Some ''air'') of
        Inl e \<Rightarrow> (Inl e, connection)
      | Inr blocks \<Rightarrow>
          (case split_list blocks (case split_size of None \<Rightarrow> 10000 | Some k \<Rightarrow> k) of
             Inl e \<Rightarrow> (Inl e, connection)
           | Inr blocks_set \<Rightarrow>
               (case set_blocks_loop set_blocks (case timeout of None \<Rightarrow> 300 | Some t \<Rightarrow> t)
                       blocks_set None connection of
                  (Inl e, conn') \<Rightarrow> (Inl e, conn')
                | (Inr None, conn') \<Rightarrow> (Inl UnboundLocalError, conn')
                | (Inr (Some result), conn') \<Rightarrow> (Inr (fst result), conn'))))"

subsection \<open>Observing what is dispatched\<close>

text \<open>
  To speak about which chunks reach the connection, a connection is wrapped so that its
  state also carries the list of calls made so far, each with the chunk it was given and
  what it answered. The wrapped connection is again a connection, so the functions above
  run on it unchanged.
\<close>

definition logged ::
  "('c, 'e, 'p) set_blocks
     \<Rightarrow> ('c \<times> (block list \<times> ('e + int \<times> 'p)) list, 'e, 'p) set_blocks" where
  "logged set_blocks =
     (\<lambda>(conn, calls) b timeout.
        case set_blocks conn b timeout of
          (r, conn') \<Rightarrow> (r, (conn', calls @ [(b, r)])))"

section \<open>Auxiliary notions for stating the properties\<close>

text \<open>
  The cells a bulk operation visits and keeps: every \<open>(x, y, z)\<close> of the three ranges,
  in the order of the nested loops, whose block identifier is not \<^verbatim>\<open>minecraft:air\<close>.
\<close>

definition non_air :: "region \<Rightarrow> int \<times> int \<times> int \<Rightarrow> bool" where
  "non_air reg cell = (block_id (getitem reg cell) \<noteq> ''minecraft:air'')"

definition non_air_cells :: "region \<Rightarrow> (int \<times> int \<times> int) list" where
  "non_air_cells reg =
     [(x, y, z). x \<leftarrow> xrange reg, y \<leftarrow> yrange reg, z \<leftarrow> zrange reg, non_air reg (x, y, z)]"

text \<open>The location and the block the body of the innermost loop computes for a cell.\<close>

definition cell_location :: "location \<Rightarrow> int \<times> int \<times> int \<Rightarrow> location" where
  "cell_location start_location cell =
     (case cell of (x, y, z) \<Rightarrow>
        \<lparr>loc_x = x + loc_x start_location,
         loc_y = y + loc_y start_location,
         loc_z = z + loc_z start_location\<rparr>)"

definition cell_block ::
  "region \<Rightarrow> location \<Rightarrow> string option \<Rightarrow> int \<times> int \<times> int \<Rightarrow> 'e error + block" where
  "cell_block reg start_location default_block_name cell =
     (case default_block_name of
        Some n \<Rightarrow> Inr (named_block n (cell_location start_location cell))
      | None \<Rightarrow> to_block (getitem reg cell) (cell_location start_location cell))"

text \<open>Mapping a function that may raise over a list: the first exception ends it.\<close>

fun map_raising :: "('a \<Rightarrow> 'e + 'b) \<Rightarrow> 'a list \<Rightarrow> 'e + 'b list" where
  "map_raising f [] = Inr []"
| "map_raising f (x # xs) =
     (case f x of
        Inl e \<Rightarrow> Inl e
      | Inr y \<Rightarrow> (case map_raising f xs of Inl e \<Rightarrow> Inl e | Inr ys \<Rightarrow> Inr (y # ys)))"

definition then_append :: "'b list \<Rightarrow> 'e + 'b list \<Rightarrow> 'e + 'b list" where
  "then_append acc r = (case r of Inl e \<Rightarrow> Inl e | Inr ys \<Rightarrow> Inr (acc @ ys))"

text \<open>
  A block identifier is namespace-qualified when it has exactly one \<^verbatim>\<open>:\<close>, between the
  namespace and the name. The identifiers the schematic reader holds are of this form.
\<close>

definition qualified_id :: "string \<Rightarrow> bool" where
  "qualified_id s = (count_list s CHR '':'' = 1)"

text \<open>
  The bulk set of a list of blocks: what \<^verbatim>\<open>build_region\<close> and \<^verbatim>\<open>clear_region\<close> do once
  the blocks are created (split into chunks, one \<^verbatim>\<open>set_blocks\<close> call per chunk, the
  status of the last result). It is the yardstick both functions are compared with.
\<close>

definition set_batch ::
  "('c, 'e, 'p) set_blocks \<Rightarrow> 'c \<Rightarrow> block list \<Rightarrow> int option \<Rightarrow> int option
     \<Rightarrow> ('e error + int) \<times> 'c" where
  "set_batch set_blocks connection blocks split_size timeout =
     (case split_list blocks (case split_size of None \<Rightarrow> 10000 | Some k \<Rightarrow> k) of
        Inl e \<Rightarrow> (Inl e, connection)
      | Inr blocks_set \<Rightarrow>
          (case set_blocks_loop set_blocks (case timeout of None \<Rightarrow> 300 | Some t \<Rightarrow> t)
                  blocks_set None connection of
             (Inl e, conn') \<Rightarrow> (Inl e, conn')
           | (Inr None, conn') \<Rightarrow> (Inl UnboundLocalError, conn')
           | (Inr (Some result), conn') \<Rightarrow> (Inr (fst result), conn')))"

text \<open>The air block at a location: \<^verbatim>\<open>Block(name="air", location=l)\<close>, written out.\<close>

definition air_block :: "location \<Rightarrow> block" where
  "air_block l =
     \<lparr>namespace = ''minecraft'', name = ''air'', location = l, state = Map.empty, inventory = []\<rparr>"

text \<open>A call of \<^verbatim>\<open>set_blocks\<close> returned when it gave a result and did not raise.\<close>

definition returned :: "'e + int \<times> 'p \<Rightarrow> bool" where
  "returned r = (case r of Inl e \<Rightarrow> False | Inr v \<Rightarrow> True)"

text \<open>
  How the outcome \<open>out\<close> of a bulk operation over \<open>chunks\<close> relates to the calls it made
  on the connection:
  \<^item> the chunks dispatched are an initial part of \<open>chunks\<close>, in order;
  \<^item> every call but the last returned;
  \<^item> the operation never ends in \<^verbatim>\<open>ValueError\<close> once the list is split; it ends in
    \<^verbatim>\<open>UnboundLocalError\<close> only when there was no chunk and no call; it ends in an exception
    of the connection only when the last call raised that exception; and it returns a
    status only when every chunk was dispatched, there was at least one, and the status is
    the one the last call returned.
\<close>

definition dispatch_outcome ::
  "block list list \<Rightarrow> 'e error + int \<Rightarrow> (block list \<times> ('e + int \<times> 'p)) list \<Rightarrow> bool" where
  "dispatch_outcome chunks out calls =
     (prefix (map fst calls) chunks
      \<and> (\<forall>x \<in> set (butlast calls). returned (snd x))
      \<and> (case out of
            Inl ValueError \<Rightarrow> False
          | Inl UnboundLocalError \<Rightarrow> chunks = [] \<and> calls = []
          | Inl (Raised e) \<Rightarrow> calls \<noteq> [] \<and> snd (last calls) = Inl e
          | Inr status \<Rightarrow> chunks \<noteq> [] \<and> map fst calls = chunks
              \<and> (case snd (last calls) of Inl e \<Rightarrow> False | Inr r \<Rightarrow> fst r = status)))"

section \<open>The operations of the connection\<close>

text \<open>
  Modelled from the spec: the class \<^verbatim>\<open>Connection\<close> of \<^verbatim>\<open>mcms.connection\<close> with its methods
  \<^verbatim>\<open>execute_commands\<close>, \<^verbatim>\<open>set_blocks\<close>, \<^verbatim>\<open>get_blocks\<close> and \<^verbatim>\<open>get_players\<close> is used by the
  notebooks but is not among the source files. The spec gives the request shapes
  \<^verbatim>\<open>ExecuteCommand(text, player?)\<close>, \<^verbatim>\<open>SetBlocks(blockList)\<close>, \<^verbatim>\<open>GetBlocks(locationList)\<close>,
  \<^verbatim>\<open>GetPlayers(onlineOnly)\<close>, a response that is a status code plus a payload whose
  structure depends on the request kind (a message, echoed blocks, a player list), and
  says that each exposed operation returns a status/result pair and never throws on
  ordinary server-side rejection, authentication failure and transport loss being the
  only conditions that abort. An exchange with the server therefore ends in one of three
  ways. The type \<open>'pl\<close> stands for players.
\<close>

datatype request =
    ExecuteCommand string "string option"
  | SetBlocks "block list"
  | GetBlocks "location list"
  | GetPlayers bool

datatype 'pl payload =
    Message string
  | Blocks "block list"
  | Players "'pl list"

datatype 'pl exchange =
    AuthenticationFailure
  | TransportLoss
  | Response int "'pl payload"

datatype abort = AuthenticationError | ConnectionError

definition exposed_operation ::
  "(request \<Rightarrow> 'pl exchange) \<Rightarrow> request \<Rightarrow> abort + int \<times> 'pl payload" where
  "exposed_operation server req =
     (case server req of
        AuthenticationFailure \<Rightarrow> Inl AuthenticationError
      | TransportLoss \<Rightarrow> Inl ConnectionError
      | Response status payload \<Rightarrow> Inr (status, payload))"

section \<open>Example inputs\<close>

text \<open>The start location of the notebook's last cells.\<close>

definition example_start :: location where
  "example_start = \<lparr>loc_x = - 210, loc_y = 72, loc_z = - 565\<rparr>"

text \<open>
  A region of two by one by two cells with its minimum corner at \<open>(-1, 0, 0)\<close>: one air
  cell, a chest facing north, a stone block and a stair with two properties.
\<close>

definition example_region :: region where
  "example_region =
     \<lparr>min_x = - 1, min_y = 0, min_z = 0,
      xrange = [- 1, 0], yrange = [0], zrange = [0, 1],
      getitem = (\<lambda>(x, y, z).
        if x = - 1 \<and> z = 0 then \<lparr>block_id = ''minecraft:air'', nbt_Properties = None\<rparr>
        else if x = - 1 then
          \<lparr>block_id = ''minecraft:chest'', nbt_Properties = Some [(''facing'', ''north'')]\<rparr>
        else if z = 0 then \<lparr>block_id = ''minecraft:stone'', nbt_Properties = None\<rparr>
        else \<lparr>block_id = ''minecraft:oak_stairs'',
              nbt_Properties = Some [(''facing'', ''east''), (''half'', ''top'')]\<rparr>)\<rparr>"

text \<open>The three blocks \<^verbatim>\<open>create_blocks\<close> makes of it at \<open>example_start\<close>.\<close>

definition block_A :: block where
  "block_A = \<lparr>namespace = ''minecraft'', name = ''chest'',
              location = \<lparr>loc_x = - 211, loc_y = 71, loc_z = - 565\<rparr>,
              state = [''facing'' \<mapsto> ''north''], inventory = []\<rparr>"

definition block_B :: block where
  "block_B = \<lparr>namespace = ''minecraft'', name = ''stone'',
              location = \<lparr>loc_x = - 210, loc_y = 71, loc_z = - 566\<rparr>,
              state = Map.empty, inventory = []\<rparr>"

definition block_C :: block where
  "block_C = \<lparr>namespace = ''minecraft'', name = ''oak_stairs'',
              location = \<lparr>loc_x = - 210, loc_y = 71, loc_z = - 565\<rparr>,
              state = [''facing'' \<mapsto> ''east'', ''half'' \<mapsto> ''top''], inventory = []\<rparr>"

text \<open>A region whose only cell is air.\<close>

definition air_region :: region where
  "air_region =
     \<lparr>min_x = 0, min_y = 0, min_z = 0, xrange = [0], yrange = [0], zrange = [0],
      getitem = (\<lambda>cell. \<lparr>block_id = ''minecraft:air'', nbt_Properties = None\<rparr>)\<rparr>"

text \<open>
  Three connections whose state counts the calls made so far. The first answers every
  call with status 200. On the second, the second call raises a timeout. On the third, the
  second call returns the status 500 of a server-side failure.
\<close>

definition always_ok :: "(nat, string, unit) set_blocks" where
  "always_ok = (\<lambda>n b timeout. (Inr (200, ()), Suc n))"

definition timeout_on_second :: "(nat, string, unit) set_blocks" where
  "timeout_on_second =
     (\<lambda>n b timeout. (if n = 1 then Inl ''timeout'' else Inr (200, ()), Suc n))"

definition rejects_second :: "(nat, string, unit) set_blocks" where
  "rejects_second =
     (\<lambda>n b timeout. (if n = 1 then Inr (500, ()) else Inr (200, ()), Suc n))"

text \<open>
  A column of 10001 stone cells, one more than the default chunk size, and the blocks
  \<^verbatim>\<open>create_blocks\<close> makes of it at \<open>example_start\<close>.
\<close>

definition long_zrange :: "int list" where
  "long_zrange = map int [0..<10001]"

definition long_region :: region where
  "long_region =
     \<lparr>min_x = 0, min_y = 0, min_z = 0, xrange = [0], yrange = [0], zrange = long_zrange,
      getitem = (\<lambda>cell. \<lparr>block_id = ''minecraft:stone'', nbt_Properties = None\<rparr>)\<rparr>"

definition long_blocks :: "block list" where
  "long_blocks =
     map (\<lambda>z. \<lparr>namespace = ''minecraft'', name = ''stone'',
                location = \<lparr>loc_x = - 211, loc_y = 71, loc_z = z + - 566\<rparr>,
                state = Map.empty, inventory = []\<rparr>) long_zrange"

definition long_air_blocks :: "block list" where
  "long_air_blocks = map (\<lambda>b. air_block (location b)) long_blocks"

section \<open>Properties of \<^verbatim>\<open>split_list\<close>\<close>

lemma py_slice_nonneg:
  assumes "0 \<le> i" and "i \<le> j"
  shows "py_slice xs i j = take (nat (j - i)) (drop (nat i) xs)"
proof (cases "int (length xs) < i")
  case True
  then show ?thesis using assms by (simp add: py_slice_def slice_index_def)
next
  case False
  then show ?thesis using assms
    by (auto simp: py_slice_def slice_index_def Let_def nat_diff_distrib)
qed

lemma concat_chunks:
  "concat (map (\<lambda>j. take k (drop (j * k) xs)) [0..<m]) = take (m * k) xs"
proof (induction m)
  case 0
  show ?case by simp
next
  case (Suc m)
  have "take (m * k) xs @ take k (drop (m * k) xs) = take (m * k + k) xs"
    by (simp add: take_add)
  with Suc show ?case by (simp add: add.commute)
qed

lemma split_list_pos:
  assumes "0 < k"
  shows "split_list xs k =
           Inr (map (\<lambda>j. take (nat k) (drop (j * nat k) xs))
                  [0..<range_length 0 (int (length xs)) k])"
proof -
  have "py_slice xs (0 + int j * k) (0 + int j * k + k) = take (nat k) (drop (j * nat k) xs)"
    for j
    using assms by (simp add: py_slice_nonneg nat_mult_distrib)
  then show ?thesis
    using assms by (simp add: split_list_def py_range_def)
qed

lemma split_list_zero: "split_list xs 0 = Inl ValueError"
  by (simp add: split_list_def py_range_def)

lemma split_list_neg: "k < 0 \<Longrightarrow> split_list xs k = Inr []"
  by (simp add: split_list_def py_range_def range_length_def)

lemma ceiling_div_pos:
  assumes "0 < (n::int)" and "0 < k"
  shows "\<lceil>real_of_int n / real_of_int k\<rceil> = (n - 1) div k + 1"
proof (rule ceiling_unique)
  define q where "q = (n - 1) div k"
  define r where "r = (n - 1) mod k"
  have n: "n = q * k + r + 1"
    unfolding q_def r_def by simp
  have r: "0 \<le> r" "r < k"
    using assms unfolding r_def by simp_all
  have "q * k < n"
    using n r by linarith
  then have "real_of_int q * real_of_int k < real_of_int n"
    by (metis of_int_less_iff of_int_mult)
  then show "real_of_int ((n - 1) div k + 1) - 1 < real_of_int n / real_of_int k"
    using assms by (simp add: pos_less_divide_eq q_def)
  have "n \<le> (q + 1) * k"
    using n r by (simp add: algebra_simps)
  then have "real_of_int n \<le> real_of_int (q + 1) * real_of_int k"
    by (metis of_int_le_iff of_int_mult)
  then show "real_of_int n / real_of_int k \<le> real_of_int ((n - 1) div k + 1)"
    using assms by (simp add: pos_divide_le_eq q_def)
qed

lemma range_length_ceiling:
  assumes "0 < k"
  shows "int (range_length 0 (int n) k) = \<lceil>real n / real_of_int k\<rceil>"
proof (cases "n = 0")
  case True
  then show ?thesis using assms by (simp add: range_length_def)
next
  case False
  then have pos: "0 < int n" by simp
  have nn: "0 \<le> (int n - 1) div k"
    using pos assms by (simp add: pos_imp_zdiv_nonneg_iff)
  have "\<lceil>real_of_int (int n) / real_of_int k\<rceil> = (int n - 1) div k + 1"
    using pos assms by (rule ceiling_div_pos)
  then show ?thesis
    using pos assms nn by (simp add: range_length_def)
qed

lemma range_length_covers:
  assumes "0 < k"
  shows "n \<le> range_length 0 (int n) k * nat k"
proof -
  have "real n / real_of_int k \<le> real_of_int \<lceil>real n / real_of_int k\<rceil>"
    by (rule le_of_int_ceiling)
  then have "real n \<le> real_of_int \<lceil>real n / real_of_int k\<rceil> * real_of_int k"
    using assms by (simp only: pos_divide_le_eq of_int_0_less_iff)
  then have "real n \<le> real_of_int (int (range_length 0 (int n) k)) * real_of_int k"
    using assms by (simp only: range_length_ceiling)
  then have "int n \<le> int (range_length 0 (int n) k) * k"
    by (metis of_int_le_iff of_int_mult of_int_of_nat_eq)
  then show ?thesis using assms
    by (metis nat_int nat_mono nat_mult_distrib of_nat_0_le_iff)
qed

lemma split_list_concat:
  assumes "0 < k" and "split_list xs k = Inr chunks"
  shows "concat chunks = xs"
proof -
  have "chunks = map (\<lambda>j. take (nat k) (drop (j * nat k) xs))
                    [0..<range_length 0 (int (length xs)) k]"
    using assms by (simp add: split_list_pos)
  then have "concat chunks = take (range_length 0 (int (length xs)) k * nat k) xs"
    by (simp only: concat_chunks)
  then show ?thesis
    using range_length_covers [OF assms(1), of "length xs"] by simp
qed

lemma split_list_chunk_length:
  assumes "0 < k" and "split_list xs k = Inr chunks" and "c \<in> set chunks"
  shows "int (length c) \<le> k"
  using assms by (auto simp: split_list_pos)

section \<open>Properties of block creation\<close>

lemma str_split_not_Nil: "str_split sep s \<noteq> []"
  by (induction s) (auto split: list.splits)

lemma length_str_split: "length (str_split sep s) = Suc (count_list s sep)"
  by (induction s) (auto split: list.splits simp: str_split_not_Nil)

lemma str_split_two: "str_split sep s = [a, b] \<Longrightarrow> s = a @ sep # b \<and> sep \<notin> set a \<and> sep \<notin> set b"
proof (induction s arbitrary: a)
  case Nil
  then show ?case by simp
next
  case (Cons c cs)
  show ?case
  proof (cases "c = sep")
    case True
    with Cons.prems have ab: "a = []" "str_split sep cs = [b]" by simp_all
    then have "count_list cs sep = 0"
      using length_str_split [of sep cs] by simp
    then have nb: "sep \<notin> set cs" by (simp add: count_list_0_iff)
    have "str_split sep cs = [cs]" using nb
      by (induction cs) (auto split: list.splits)
    with ab have "b = cs" by simp
    with True ab nb show ?thesis by simp
  next
    case False
    with Cons.prems obtain p where p: "str_split sep cs = [p, b]" "a = c # p"
      by (auto split: list.splits)
    with Cons.IH [of p] False show ?thesis by simp
  qed
qed

lemma fold_upd_map_of:
  "fold (\<lambda>(k, v) st. st(k \<mapsto> v)) kvs m = m ++ map_of (rev kvs)"
  by (induction kvs arbitrary: m) (auto simp: map_add_upd_left fun_eq_iff map_add_def split: option.splits)

lemma to_block_qualified:
  assumes "qualified_id (block_id bs)"
  shows "\<exists>ns nm. to_block bs loc =
            Inr \<lparr>namespace = ns, name = nm, location = loc,
                 state = (case nbt_Properties bs of None \<Rightarrow> Map.empty | Some kvs \<Rightarrow> map_of (rev kvs)),
                 inventory = []\<rparr>
          \<and> ns @ '':'' @ nm = block_id bs"
proof -
  have "length (str_split CHR '':'' (block_id bs)) = 2"
    using assms by (simp add: qualified_id_def length_str_split)
  then obtain ns nm where s: "str_split CHR '':'' (block_id bs) = [ns, nm]"
    by (auto simp: length_Suc_conv numeral_2_eq_2)
  then have "block_id bs = ns @ CHR '':'' # nm"
    using str_split_two by blast
  with s show ?thesis
    by (auto simp: to_block_def fold_upd_map_of split: option.splits)
qed

lemma then_append_simps [simp]:
  "then_append acc (Inl e) = Inl e"
  "then_append acc (Inr ys) = Inr (acc @ ys)"
  by (simp_all add: then_append_def)

lemma then_append_Nil [simp]: "then_append [] r = r"
  by (cases r) simp_all

lemma then_append_assoc: "then_append (as @ bs) r = then_append as (then_append bs r)"
  by (cases r) simp_all

lemma map_raising_append:
  "map_raising f (xs @ ys) =
     (case map_raising f xs of Inl e \<Rightarrow> Inl e | Inr bs \<Rightarrow> then_append bs (map_raising f ys))"
proof (induction xs)
  case Nil
  show ?case by simp
next
  case (Cons x xs)
  show ?case
    by (cases "map_raising f ys") (auto simp: Cons split: sum.splits)
qed

lemma map_raising_Inr:
  "map_raising f xs = Inr ys \<Longrightarrow> list_all2 (\<lambda>x y. f x = Inr y) xs ys"
  by (induction xs arbitrary: ys) (auto split: sum.splits)

lemma map_raising_total:
  "(\<And>x. x \<in> set xs \<Longrightarrow> f x = Inr (g x)) \<Longrightarrow> map_raising f xs = Inr (map g xs)"
  by (induction xs) auto

lemma create_blocks_z_eq:
  "create_blocks_z reg sl dbn x y zs acc =
     then_append acc (map_raising (cell_block reg sl dbn) [(x, y, z). z \<leftarrow> zs, non_air reg (x, y, z)])"
proof (induction zs arbitrary: acc)
  case Nil
  show ?case by simp
next
  case (Cons z zs)
  show ?case
  proof (cases "non_air reg (x, y, z)")
    case False
    then show ?thesis using Cons by (simp add: non_air_def)
  next
    case True
    then have na: "block_id (getitem reg (x, y, z)) \<noteq> ''minecraft:air''"
      by (simp add: non_air_def)
    show ?thesis
    proof (cases "cell_block reg sl dbn (x, y, z) :: 'a error + block")
      case (Inl e)
      then show ?thesis using True na
        by (simp add: cell_block_def cell_location_def Let_def split: option.splits)
    next
      case (Inr b)
      then show ?thesis using True na Cons [of "acc @ [b]"]
        by (auto simp: cell_block_def cell_location_def Let_def split: option.splits sum.splits)
    qed
  qed
qed

lemma create_blocks_y_eq:
  "create_blocks_y reg sl dbn x ys acc =
     then_append acc (map_raising (cell_block reg sl dbn)
        [(x, y, z). y \<leftarrow> ys, z \<leftarrow> zrange reg, non_air reg (x, y, z)])"
proof (induction ys arbitrary: acc)
  case Nil
  show ?case by simp
next
  case (Cons y ys)
  show ?case
    by (simp add: create_blocks_z_eq Cons map_raising_append then_append_assoc split: sum.splits)
qed

lemma create_blocks_x_eq:
  "create_blocks_x reg sl dbn xs acc =
     then_append acc (map_raising (cell_block reg sl dbn)
        [(x, y, z). x \<leftarrow> xs, y \<leftarrow> yrange reg, z \<leftarrow> zrange reg, non_air reg (x, y, z)])"
proof (induction xs arbitrary: acc)
  case Nil
  show ?case by simp
next
  case (Cons x xs)
  show ?case
    by (simp add: create_blocks_y_eq Cons map_raising_append then_append_assoc split: sum.splits)
qed

lemma create_blocks_eq:
  "create_blocks reg start dbn =
     map_raising (cell_block reg (modify_start_location start reg) dbn) (non_air_cells reg)"
  by (simp add: create_blocks_def create_blocks_x_eq non_air_cells_def)

lemma cell_block_location:
  "cell_block reg sl dbn cell = Inr b \<Longrightarrow> location b = cell_location sl cell"
  by (auto simp: cell_block_def named_block_def to_block_def split: option.splits list.splits)

lemma list_all2_map_eq:
  "list_all2 (\<lambda>x y. g y = h x) xs ys \<Longrightarrow> map g ys = map h xs"
  by (induction rule: list_all2_induct) simp_all

lemma create_blocks_map_location:
  assumes "create_blocks reg start dbn = (Inr blocks :: 'e error + block list)"
  shows "map location blocks = map (cell_location (modify_start_location start reg)) (non_air_cells reg)"
proof -
  have "list_all2 (\<lambda>cell b. cell_block reg (modify_start_location start reg) dbn cell
                                = (Inr b :: 'e error + block))
          (non_air_cells reg) blocks"
    using assms by (simp add: create_blocks_eq map_raising_Inr)
  then have "list_all2 (\<lambda>cell b. location b = cell_location (modify_start_location start reg) cell)
          (non_air_cells reg) blocks"
    by (rule list_all2_mono) (rule cell_block_location)
  then show ?thesis by (rule list_all2_map_eq)
qed

lemma create_blocks_default_name:
  "create_blocks reg start (Some n) =
     Inr (map (\<lambda>cell. named_block n (cell_location (modify_start_location start reg) cell))
            (non_air_cells reg))"
  by (simp add: create_blocks_eq cell_block_def map_raising_total)

lemma create_blocks_air:
  "create_blocks reg start (Some ''air'') =
     Inr (map (\<lambda>cell. air_block (cell_location (modify_start_location start reg) cell))
            (non_air_cells reg))"
  by (simp add: create_blocks_default_name named_block_def air_block_def default_namespace_def)

lemma create_blocks_no_cells:
  "non_air_cells reg = [] \<Longrightarrow> create_blocks reg start dbn = Inr []"
  by (simp add: create_blocks_eq)

lemma create_blocks_qualified:
  assumes "\<forall>cell \<in> set (non_air_cells reg). qualified_id (block_id (getitem reg cell))"
  shows "\<exists>blocks. create_blocks reg start None = (Inr blocks :: 'e error + block list)
           \<and> length blocks = length (non_air_cells reg)
           \<and> (\<forall>i < length blocks.
                 namespace (blocks ! i) @ '':'' @ name (blocks ! i)
                   = block_id (getitem reg (non_air_cells reg ! i))
               \<and> state (blocks ! i)
                   = (case nbt_Properties (getitem reg (non_air_cells reg ! i)) of
                        None \<Rightarrow> Map.empty
                      | Some kvs \<Rightarrow> map_of (rev kvs))
               \<and> inventory (blocks ! i) = [])"
proof -
  let ?sl = "modify_start_location start reg"
  let ?f = "cell_block reg ?sl None :: int \<times> int \<times> int \<Rightarrow> 'e error + block"
  have ok: "\<exists>b. ?f cell = Inr b" if "cell \<in> set (non_air_cells reg)" for cell
    using that assms to_block_qualified [of "getitem reg cell" "cell_location ?sl cell"]
    by (auto simp: cell_block_def)
  define g where "g cell = projr (?f cell)" for cell
  have "?f cell = Inr (g cell)" if "cell \<in> set (non_air_cells reg)" for cell
    using ok [OF that] by (auto simp: g_def)
  then have cb: "create_blocks reg start None = (Inr (map g (non_air_cells reg)) :: 'e error + block list)"
    by (simp add: create_blocks_eq map_raising_total)
  have props: "namespace (g cell) @ '':'' @ name (g cell) = block_id (getitem reg cell)
      \<and> state (g cell) = (case nbt_Properties (getitem reg cell) of
                           None \<Rightarrow> Map.empty | Some kvs \<Rightarrow> map_of (rev kvs))
      \<and> inventory (g cell) = []"
    if "cell \<in> set (non_air_cells reg)" for cell
    using that assms to_block_qualified [of "getitem reg cell", where ?'a = 'e and loc = "cell_location ?sl cell"]
    by (auto simp: g_def cell_block_def)
  show ?thesis
    using cb props by (intro exI [of _ "map g (non_air_cells reg)"]) simp
qed

lemma set_non_air_cells:
  "set (non_air_cells reg) =
     {(x, y, z). x \<in> set (xrange reg) \<and> y \<in> set (yrange reg) \<and> z \<in> set (zrange reg)
                 \<and> block_id (getitem reg (x, y, z)) \<noteq> ''minecraft:air''}"
  by (auto simp: non_air_cells_def non_air_def)

section \<open>Properties of \<^verbatim>\<open>fill\<close>\<close>

lemma range0_eq: "range0 n = map int [0..<nat n]"
  by (simp add: range0_def range_length_def)

lemma length_range0: "length (range0 n) = nat n"
  by (simp add: range0_eq)

lemma set_range0: "set (range0 n) = {d. 0 \<le> d \<and> d < n}"
proof -
  have "d \<in> int ` {0..<nat n} \<longleftrightarrow> 0 \<le> d \<and> d < n" for d
  proof
    assume "d \<in> int ` {0..<nat n}"
    then show "0 \<le> d \<and> d < n" by auto
  next
    assume "0 \<le> d \<and> d < n"
    then have "nat d \<in> {0..<nat n}" "d = int (nat d)" by auto
    then show "d \<in> int ` {0..<nat n}" by blast
  qed
  then show ?thesis by (auto simp: range0_eq)
qed

lemma length_concat_map_const:
  "(\<And>x. x \<in> set xs \<Longrightarrow> length (f x) = m) \<Longrightarrow> length (concat (map f xs)) = length xs * m"
  by (induction xs) simp_all

lemma length_fill: "length (fill b xl yl zl) = nat xl * nat yl * nat zl"
  by (simp add: fill_def length_concat_map_const [where m = "nat yl * nat zl"]
        length_concat_map_const [where m = "nat zl"] length_range0)

lemma set_fill:
  "set (fill b xl yl zl) =
     {\<lparr>namespace = namespace b, name = name b,
       location = \<lparr>loc_x = loc_x (location b) + dx,
                   loc_y = loc_y (location b) + dy,
                   loc_z = loc_z (location b) + dz\<rparr>,
       state = state b, inventory = inventory b\<rparr> | dx dy dz.
      0 \<le> dx \<and> dx < xl \<and> 0 \<le> dy \<and> dy < yl \<and> 0 \<le> dz \<and> dz < zl}"
  by (auto simp: fill_def set_range0)

section \<open>Properties of the bulk operations\<close>

lemma build_region_set_batch:
  "build_region sb c reg start ss t =
     (case create_blocks reg start None of
        Inl e \<Rightarrow> (Inl e, c)
      | Inr blocks \<Rightarrow> set_batch sb c blocks ss t)"
  by (simp add: build_region_def set_batch_def split: sum.splits)

lemma clear_region_set_batch:
  "clear_region sb c reg start ss t =
     (case create_blocks reg start (Some ''air'') of
        Inl e \<Rightarrow> (Inl e, c)
      | Inr blocks \<Rightarrow> set_batch sb c blocks ss t)"
  by (simp add: clear_region_def set_batch_def split: sum.splits)

lemma logged_loop:
  "set_blocks_loop (logged sb) t chunks res (c, calls) = (out, (c', calls')) \<Longrightarrow>
     \<exists>tr. calls' = calls @ tr
        \<and> map fst tr = take (length tr) chunks
        \<and> (\<forall>x \<in> set (butlast tr). returned (snd x))
        \<and> (case out of
              Inl err \<Rightarrow> tr \<noteq> [] \<and> (\<exists>e. err = Raised e \<and> snd (last tr) = Inl e)
            | Inr res' \<Rightarrow> length tr = length chunks
                \<and> (if tr = [] then res' = res
                    else \<exists>r. res' = Some r \<and> snd (last tr) = Inr r))"
proof (induction chunks arbitrary: res c calls)
  case Nil
  then show ?case by auto
next
  case (Cons b rest)
  obtain r c1 where sb: "sb c b t = (r, c1)" by (cases "sb c b t")
  show ?case
  proof (cases r)
    case (Inl e)
    with sb Cons.prems have "out = Inl (Raised e)" "calls' = calls @ [(b, Inl e)]"
      by (simp_all add: logged_def)
    then show ?thesis
      by (intro exI [of _ "[(b, Inl e)]"]) simp
  next
    case (Inr v)
    with sb Cons.prems
    have "set_blocks_loop (logged sb) t rest (Some v) (c1, calls @ [(b, Inr v)]) = (out, (c', calls'))"
      by (simp add: logged_def)
    from Cons.IH [OF this] obtain tr where tr:
      "calls' = (calls @ [(b, Inr v)]) @ tr"
      "map fst tr = take (length tr) rest"
      "\<forall>x \<in> set (butlast tr). returned (snd x)"
      "case out of
              Inl err \<Rightarrow> tr \<noteq> [] \<and> (\<exists>e. err = Raised e \<and> snd (last tr) = Inl e)
            | Inr res' \<Rightarrow> length tr = length rest
                \<and> (if tr = [] then res' = Some v
                    else \<exists>r. res' = Some r \<and> snd (last tr) = Inr r)"
      by blast
    show ?thesis
    proof (intro exI [of _ "(b, Inr v) # tr"] conjI)
      show "calls' = calls @ (b, Inr v) # tr" using tr(1) by simp
      show "map fst ((b, Inr v) # tr) = take (length ((b, Inr v) # tr)) (b # rest)"
        using tr(2) by simp
      show "\<forall>x \<in> set (butlast ((b, Inr v) # tr)). returned (snd x)"
        using tr(3) by (auto simp: returned_def)
      show "case out of
              Inl err \<Rightarrow> (b, Inr v) # tr \<noteq> [] \<and> (\<exists>e. err = Raised e \<and> snd (last ((b, Inr v) # tr)) = Inl e)
            | Inr res' \<Rightarrow> length ((b, Inr v) # tr) = length (b # rest)
                \<and> (if (b, Inr v) # tr = [] then res' = res
                    else \<exists>r. res' = Some r \<and> snd (last ((b, Inr v) # tr)) = Inr r)"
        using tr(4) by (auto split: sum.splits if_splits)
    qed
  qed
qed

lemma set_batch_logged:
  fixes sb :: "('c, 'e, 'p) set_blocks"
  assumes run: "set_batch (logged sb) (c, []) blocks ss t = (out, (c', calls))"
    and chunks: "split_list blocks (case ss of None \<Rightarrow> 10000 | Some k \<Rightarrow> k)
                   = (Inr chunks :: 'e error + block list list)"
  shows "dispatch_outcome chunks out calls"
proof -
  obtain lo c2 calls2 where
    loop: "set_blocks_loop (logged sb) (case t of None \<Rightarrow> 300 | Some t \<Rightarrow> t) chunks None (c, [])
             = (lo, (c2, calls2))"
    by (metis surj_pair)
  from logged_loop [OF loop] have tr:
    "map fst calls2 = take (length calls2) chunks"
    "\<forall>x \<in> set (butlast calls2). returned (snd x)"
    "case lo of
       Inl err \<Rightarrow> calls2 \<noteq> [] \<and> (\<exists>e. err = Raised e \<and> snd (last calls2) = Inl e)
     | Inr res' \<Rightarrow> length calls2 = length chunks
         \<and> (if calls2 = [] then res' = None
             else \<exists>r. res' = Some r \<and> snd (last calls2) = Inr r)"
    by auto
  have pre: "prefix (map fst calls2) chunks"
    using tr(1) take_is_prefix [of "length calls2" chunks] by simp
  show ?thesis
  proof (cases lo)
    case (Inl err)
    with tr(3) obtain e where e: "err = Raised e" "calls2 \<noteq> []" "snd (last calls2) = Inl e"
      by auto
    from run chunks loop Inl have "out = Inl err" "calls = calls2"
      by (simp_all add: set_batch_def)
    with e pre tr(2) show ?thesis
      by (simp add: dispatch_outcome_def)
  next
    case (Inr res')
    with tr(3) have len: "length calls2 = length chunks" by simp
    show ?thesis
    proof (cases res')
      case None
      with Inr tr(3) have "calls2 = []" by (auto split: if_splits)
      moreover from run chunks loop Inr None have "out = Inl UnboundLocalError" "calls = calls2"
        by (simp_all add: set_batch_def)
      ultimately show ?thesis using len
        by (simp add: dispatch_outcome_def)
    next
      case (Some r)
      with Inr tr(3) have ne: "calls2 \<noteq> []" and last: "snd (last calls2) = Inr r"
        by (auto split: if_splits)
      from run chunks loop Inr Some have "out = Inr (fst r)" "calls = calls2"
        by (simp_all add: set_batch_def)
      with ne last len pre tr(1) tr(2) show ?thesis
        by (cases r) (auto simp: dispatch_outcome_def)
    qed
  qed
qed

lemma dispatch_outcome_all_returned:
  assumes "dispatch_outcome chunks out calls" and "\<forall>x \<in> set calls. returned (snd x)"
  shows "map fst calls = chunks"
proof (cases out)
  case (Inl err)
  show ?thesis
  proof (cases err)
    case ValueError
    with Inl assms(1) show ?thesis by (simp add: dispatch_outcome_def)
  next
    case UnboundLocalError
    with Inl assms(1) show ?thesis by (simp add: dispatch_outcome_def)
  next
    case (Raised e)
    with Inl assms(1) have "calls \<noteq> []" "snd (last calls) = Inl e"
      by (simp_all add: dispatch_outcome_def)
    then have "\<not> returned (snd (last calls))" "last calls \<in> set calls"
      by (simp_all add: returned_def)
    with assms(2) show ?thesis by blast
  qed
next
  case (Inr status)
  with assms(1) show ?thesis by (simp add: dispatch_outcome_def)
qed

lemma prefix_concat_mono: "prefix xs ys \<Longrightarrow> prefix (concat xs) (concat ys)"
  by (auto simp: prefix_def)

lemma dispatch_outcome_default_chunks:
  fixes out :: "'e error + int"
  assumes d: "dispatch_outcome chunks out calls"
    and s: "split_list blocks 10000 = (Inr chunks :: 'e error + block list list)"
  shows "(\<forall>x \<in> set calls. length (fst x) \<le> 10000)
       \<and> prefix (concat (map fst calls)) blocks
       \<and> (\<forall>status. out = Inr status \<longrightarrow> concat (map fst calls) = blocks)"
proof -
  have k: "(0::int) < 10000" by simp
  have cc: "concat chunks = blocks"
    using k s by (rule split_list_concat)
  have pre: "prefix (map fst calls) chunks"
    using d by (simp add: dispatch_outcome_def)
  then have sub: "set (map fst calls) \<subseteq> set chunks"
    by (rule set_mono_prefix)
  have "length (fst x) \<le> 10000" if "x \<in> set calls" for x
  proof -
    from that sub have "fst x \<in> set chunks" by auto
    with split_list_chunk_length [OF k s] have "int (length (fst x)) \<le> 10000" by blast
    then show ?thesis by simp
  qed
  moreover have "prefix (concat (map fst calls)) blocks"
    using prefix_concat_mono [OF pre] cc by simp
  moreover have "concat (map fst calls) = blocks" if "out = Inr status" for status
    using d that cc by (simp add: dispatch_outcome_def)
  ultimately show ?thesis by blast
qed

lemma set_batch_status:
  fixes sb :: "('c, 'e, 'p) set_blocks"
  assumes "set_batch (logged sb) (c, []) blocks ss t = (Inr status, (c', calls))"
  shows "calls \<noteq> [] \<and> (\<exists>payload. snd (last calls) = Inr (status, payload))"
proof (cases "split_list blocks (case ss of None \<Rightarrow> 10000 | Some k \<Rightarrow> k)
                :: 'e error + block list list")
  case (Inl e)
  with assms show ?thesis by (simp add: set_batch_def)
next
  case (Inr chunks)
  with assms have "dispatch_outcome chunks (Inr status :: 'e error + int) calls"
    by (rule set_batch_logged)
  then show ?thesis
    by (auto simp: dispatch_outcome_def split: sum.splits)
qed

lemma set_batch_Nil:
  fixes sb :: "('c, 'e, 'p) set_blocks"
  shows "set_batch sb c [] ss t = (Inl (if ss = Some 0 then ValueError else UnboundLocalError), c)"
proof (cases "(case ss of None \<Rightarrow> 10000 | Some k \<Rightarrow> k) = (0::int)")
  case True
  then have "ss = Some 0" by (cases ss) simp_all
  then show ?thesis by (simp add: set_batch_def split_list_zero)
next
  case False
  then have ne: "ss \<noteq> Some 0" by auto
  have "split_list ([] :: block list) (case ss of None \<Rightarrow> 10000 | Some k \<Rightarrow> k)
          = (Inr [] :: 'e error + block list list)"
    using False by (simp add: split_list_def py_range_def range_length_def)
  then show ?thesis using ne by (simp add: set_batch_def)
qed

section \<open>Evaluating the examples\<close>

lemmas example_defs = example_region_def example_start_def block_A_def block_B_def block_C_def
  air_region_def always_ok_def timeout_on_second_def rejects_second_def

lemma example_blocks:
  "create_blocks example_region example_start None = (Inr [block_A, block_B, block_C] :: 'e error + block list)"
  by (simp add: example_defs create_blocks_def modify_start_location_def to_block_def)

lemma example_air_blocks:
  "create_blocks example_region example_start (Some ''air'') = (Inr (map (\<lambda>b. air_block (location b)) [block_A, block_B, block_C]) :: 'e error + block list)"
  by (simp add: example_defs create_blocks_def modify_start_location_def named_block_def air_block_def default_namespace_def)

lemma example_cells: "non_air_cells example_region = [(- 1, 0, 1), (0, 0, 0), (0, 0, 1)]"
  by (simp add: example_defs non_air_cells_def non_air_def)

lemma example_qualified:
  "\<forall>cell \<in> set (non_air_cells example_region).
     qualified_id (block_id (getitem example_region cell))"
  by (simp add: example_cells) (simp add: example_region_def qualified_id_def)

lemma air_cells: "non_air_cells air_region = []"
  by (simp add: air_region_def non_air_cells_def non_air_def)

lemma split3: "split_list [a, b, c] 1 = (Inr [[a], [b], [c]] :: 'e error + 'a list list)"
  by (simp add: split_list_def py_range_def range_length_def py_slice_def slice_index_def upt_rec)

lemma run_timeout:
  "build_region (logged timeout_on_second) (0, []) example_region example_start (Some 1) None
     = (Inl (Raised ''timeout''), (2, [([block_A], Inr (200, ())), ([block_B], Inl ''timeout'')]))"
  by (simp add: build_region_def example_blocks split3 logged_def timeout_on_second_def)

lemma run_reject:
  "build_region (logged rejects_second) (0, []) example_region example_start (Some 1) None
     = (Inr 200, (3, [([block_A], Inr (200, ())), ([block_B], Inr (500, ())), ([block_C], Inr (200, ()))]))"
  by (simp add: build_region_def example_blocks split3 logged_def rejects_second_def)

lemma run_clear_reject:
  "clear_region (logged rejects_second) (0, []) example_region example_start (Some 1) None
     = (Inr 200, (3, [([air_block (location block_A)], Inr (200, ())),
                      ([air_block (location block_B)], Inr (500, ())),
                      ([air_block (location block_C)], Inr (200, ()))]))"
  by (simp add: clear_region_def example_air_blocks split3 logged_def rejects_second_def)

lemma run_default_build:
  "build_region (logged always_ok) (0, []) example_region example_start None None
     = (Inr 200, (1, [([block_A, block_B, block_C], Inr (200, ()))]))"
  by (simp add: build_region_def example_blocks split_list_def py_range_def range_length_def
        py_slice_def slice_index_def logged_def always_ok_def)

lemma run_default_clear:
  "clear_region (logged always_ok) (0, []) example_region example_start None None
     = (Inr 200, (1, [(map (\<lambda>b. air_block (location b)) [block_A, block_B, block_C],
                       Inr (200, ()))]))"
  by (simp add: clear_region_def example_air_blocks split_list_def py_range_def range_length_def
        py_slice_def slice_index_def logged_def always_ok_def)

lemma length_long_zrange: "length long_zrange = 10001"
  unfolding long_zrange_def by (simp only: length_map length_upt diff_zero)

lemma length_long_blocks: "length long_blocks = 10001"
  by (simp add: long_blocks_def length_long_zrange)

lemma long_cells: "non_air_cells long_region = map (\<lambda>z. (0, 0, z)) long_zrange"
  by (simp add: non_air_cells_def non_air_def long_region_def)

lemma long_cell_block:
  "cell_block long_region (modify_start_location example_start long_region) None (0, 0, z)
     = (Inr \<lparr>namespace = ''minecraft'', name = ''stone'',
             location = \<lparr>loc_x = - 211, loc_y = 71, loc_z = z + - 566\<rparr>,
             state = Map.empty, inventory = []\<rparr> :: 'e error + block)"
  by (simp add: cell_block_def to_block_def cell_location_def modify_start_location_def
        example_start_def long_region_def)

lemma map_raising_map:
  "(\<And>z. f (h z) = Inr (k z)) \<Longrightarrow> map_raising f (map h zs) = Inr (map k zs)"
  by (induction zs) simp_all

lemma long_create_blocks:
  "create_blocks long_region example_start None = (Inr long_blocks :: 'e error + block list)"
  unfolding create_blocks_eq long_cells long_blocks_def
  by (rule map_raising_map) (rule long_cell_block)

lemma split_10001:
  assumes "length bs = 10001"
  shows "split_list bs 10000 = (Inr [take 10000 bs, drop 10000 bs] :: 'e error + 'a list list)"
proof -
  have r: "range_length 0 (int (length bs)) 10000 = 2"
    by (simp add: range_length_def assms)
  have u: "[0..<2] = [0, Suc 0]"
    by (simp add: upt_rec)
  have "take 10000 (drop 10000 bs) = drop 10000 bs"
    by (simp add: assms)
  then show ?thesis
    by (simp add: split_list_pos r u)
qed

lemma long_split:
  "split_list long_blocks 10000
     = (Inr [take 10000 long_blocks, drop 10000 long_blocks] :: 'e error + block list list)"
  using length_long_blocks by (rule split_10001)

lemma long_run:
  "build_region (logged always_ok) (0, []) long_region example_start None None
     = (Inr 200, (2, [(take 10000 long_blocks, Inr (200, ())),
                      (drop 10000 long_blocks, Inr (200, ()))]))"
  by (simp add: build_region_def long_create_blocks long_split logged_def always_ok_def)


lemma long_create_air_blocks:
  "create_blocks long_region example_start (Some ''air'')
     = (Inr long_air_blocks :: 'e error + block list)"
  by (simp add: create_blocks_air long_cells long_blocks_def long_air_blocks_def comp_def)
     (simp add: cell_location_def modify_start_location_def example_start_def long_region_def)

lemma long_air_split:
  "split_list long_air_blocks 10000
     = (Inr [take 10000 long_air_blocks, drop 10000 long_air_blocks]
         :: 'e error + block list list)"
  by (rule split_10001) (simp add: long_air_blocks_def length_long_blocks)

lemma long_clear_run:
  "clear_region (logged always_ok) (0, []) long_region example_start None None
     = (Inr 200, (2, [(take 10000 long_air_blocks, Inr (200, ())),
                      (drop 10000 long_air_blocks, Inr (200, ()))]))"
  by (simp only: clear_region_def long_create_air_blocks sum.case option.case long_air_split)
     (simp add: logged_def always_ok_def)

section \<open>The claims about \<^verbatim>\<open>split_list\<close>\<close>

text \<open>
  C2. For a list of length \<open>n\<close> and a chunk size \<open>k \<ge> 1\<close>, \<^verbatim>\<open>split_list\<close> returns
  (it does not raise) exactly \<open>\<lceil>n / k\<rceil>\<close> chunks, every chunk has at most \<open>k\<close>
  elements, and the chunks concatenated in order are the original list.
\<close>

theorem split_list_chunks:
  assumes "1 \<le> k"
  shows "\<exists>chunks. split_list xs k = (Inr chunks :: 'e error + 'a list list)
           \<and> int (length chunks) = \<lceil>real (length xs) / real_of_int k\<rceil>
           \<and> (\<forall>c \<in> set chunks. int (length c) \<le> k)
           \<and> concat chunks = xs"
proof -
  from assms have k: "0 < k" by simp
  obtain chunks where c: "split_list xs k = (Inr chunks :: 'e error + 'a list list)"
    by (simp add: split_list_pos [OF k])
  have "length chunks = range_length 0 (int (length xs)) k"
    using c by (auto simp: split_list_pos [OF k])
  then have "int (length chunks) = \<lceil>real (length xs) / real_of_int k\<rceil>"
    by (simp add: range_length_ceiling [OF k])
  moreover have "\<forall>c \<in> set chunks. int (length c) \<le> k"
    using split_list_chunk_length [OF k c] by blast
  moreover have "concat chunks = xs"
    using k c by (rule split_list_concat)
  ultimately show ?thesis using c by blast
qed

theorem split_list_chunks_witness:
  "(1::int) \<le> 2 \<and>
   (\<exists>chunks. split_list [1, 2, 3, 4, 5::nat] 2 = (Inr chunks :: unit error + nat list list)
      \<and> int (length chunks) = \<lceil>real (length [1, 2, 3, 4, 5::nat]) / real_of_int 2\<rceil>
      \<and> (\<forall>c \<in> set chunks. int (length c) \<le> 2)
      \<and> concat chunks = [1, 2, 3, 4, 5])"
  using split_list_chunks [of 2 "[1, 2, 3, 4, 5::nat]"] by simp

text \<open>
  C10. \<^verbatim>\<open>split_list\<close> is meaningful only for a chunk size of at least 1: with chunk
  size 0 it raises \<^verbatim>\<open>ValueError\<close> (the zero step of \<^verbatim>\<open>range\<close>), and with a negative
  chunk size it returns the empty list of chunks, so that for a non-empty list every
  element is dropped.
\<close>

theorem split_list_nonpositive:
  "split_list xs 0 = Inl ValueError
   \<and> (k < 0 \<longrightarrow> split_list xs k = Inr [] \<and> (xs \<noteq> [] \<longrightarrow> concat ([] :: 'a list list) \<noteq> xs))"
  by (simp add: split_list_zero split_list_neg)

theorem split_list_nonpositive_witness:
  "(split_list [7, 8, 9::nat] 0 = (Inl ValueError :: unit error + nat list list))
   \<and> (- 2 :: int) < 0
   \<and> (split_list [7, 8, 9::nat] (- 2) = (Inr [] :: unit error + nat list list))
   \<and> [7, 8, 9::nat] \<noteq> []"
  using split_list_nonpositive [of "[7, 8, 9::nat]" "- 2"] by simp

section \<open>The claims about the bulk operations\<close>

text \<open>
  C1 (as the code has it). Let a bulk set or a bulk clear run over the chunks of its block
  list on a connection whose calls are recorded. The chunks are dispatched in order. If a
  call of \<^verbatim>\<open>set_blocks\<close> raises (a timeout, for instance), the operation stops there: no
  later chunk is dispatched and that exception is the outcome of the whole operation; no
  result value is returned, so nothing reports a count of applied blocks or the index of
  the failed chunk. A call that returns, whatever its status, does not stop the loop: when
  no call raises, every chunk is dispatched and the status returned is that of the last
  chunk.
\<close>

theorem bulk_operation_stops_only_on_exception:
  fixes sb :: "('c, 'e, 'p) set_blocks"
  assumes "split_list blocks (case ss of None \<Rightarrow> 10000 | Some k \<Rightarrow> k)
             = (Inr chunks :: 'e error + block list list)"
  shows "(create_blocks reg start None = (Inr blocks :: 'e error + block list) \<longrightarrow>
          build_region (logged sb) (c, []) reg start ss t = (out, (c', calls)) \<longrightarrow>
            dispatch_outcome chunks out calls
            \<and> ((\<forall>x \<in> set calls. returned (snd x)) \<longrightarrow> map fst calls = chunks))
       \<and> (create_blocks reg start (Some ''air'') = (Inr blocks :: 'e error + block list) \<longrightarrow>
          clear_region (logged sb) (c, []) reg start ss t = (out, (c', calls)) \<longrightarrow>
            dispatch_outcome chunks out calls
            \<and> ((\<forall>x \<in> set calls. returned (snd x)) \<longrightarrow> map fst calls = chunks))"
proof (intro conjI impI)
  assume "create_blocks reg start None = (Inr blocks :: 'e error + block list)"
    and "build_region (logged sb) (c, []) reg start ss t = (out, (c', calls))"
  then have "set_batch (logged sb) (c, []) blocks ss t = (out, (c', calls))"
    by (simp add: build_region_set_batch)
  then show d: "dispatch_outcome chunks out calls"
    using assms by (rule set_batch_logged)
  assume "\<forall>x \<in> set calls. returned (snd x)"
  with d show "map fst calls = chunks" by (rule dispatch_outcome_all_returned)
next
  assume "create_blocks reg start (Some ''air'') = (Inr blocks :: 'e error + block list)"
    and "clear_region (logged sb) (c, []) reg start ss t = (out, (c', calls))"
  then have "set_batch (logged sb) (c, []) blocks ss t = (out, (c', calls))"
    by (simp add: clear_region_set_batch)
  then show d: "dispatch_outcome chunks out calls"
    using assms by (rule set_batch_logged)
  assume "\<forall>x \<in> set calls. returned (snd x)"
  with d show "map fst calls = chunks" by (rule dispatch_outcome_all_returned)
qed

theorem bulk_operation_stops_only_on_exception_witness:
  "split_list [block_A, block_B, block_C] (case Some 1 of None \<Rightarrow> 10000 | Some k \<Rightarrow> k)
     = (Inr [[block_A], [block_B], [block_C]] :: string error + block list list)
   \<and> create_blocks example_region example_start None
     = (Inr [block_A, block_B, block_C] :: string error + block list)
   \<and> build_region (logged timeout_on_second) (0, []) example_region example_start (Some 1) None
     = (Inl (Raised ''timeout''),
        (2, [([block_A], Inr (200, ())), ([block_B], Inl ''timeout'')]))
   \<and> dispatch_outcome [[block_A], [block_B], [block_C]] (Inl (Raised ''timeout''))
        [([block_A], Inr (200, ())), ([block_B], Inl ''timeout'' :: string + int \<times> unit)]
   \<and> create_blocks example_region example_start (Some ''air'')
     = (Inr (map (\<lambda>b. air_block (location b)) [block_A, block_B, block_C])
         :: string error + block list)
   \<and> clear_region (logged rejects_second) (0, []) example_region example_start (Some 1) None
     = (Inr 200, (3, [([air_block (location block_A)], Inr (200, ())),
                      ([air_block (location block_B)], Inr (500, ())),
                      ([air_block (location block_C)], Inr (200, ()))]))
   \<and> dispatch_outcome
        [[air_block (location block_A)], [air_block (location block_B)],
         [air_block (location block_C)]]
        (Inr 200 :: string error + int)
        [([air_block (location block_A)], Inr (200, ())),
         ([air_block (location block_B)], Inr (500, ())),
         ([air_block (location block_C)], Inr (200, ()) :: string + int \<times> unit)]"
proof -
  have s1: "split_list [block_A, block_B, block_C] (case Some 1 of None \<Rightarrow> 10000 | Some k \<Rightarrow> k)
     = (Inr [[block_A], [block_B], [block_C]] :: string error + block list list)"
    by (simp add: split3)
  have s2: "split_list (map (\<lambda>b. air_block (location b)) [block_A, block_B, block_C])
       (case Some 1 of None \<Rightarrow> 10000 | Some k \<Rightarrow> k)
     = (Inr [[air_block (location block_A)], [air_block (location block_B)],
             [air_block (location block_C)]] :: string error + block list list)"
    by (simp add: split3)
  have d1: "dispatch_outcome [[block_A], [block_B], [block_C]] (Inl (Raised ''timeout''))
        [([block_A], Inr (200, ())), ([block_B], Inl ''timeout'' :: string + int \<times> unit)]"
    using bulk_operation_stops_only_on_exception [OF s1, where sb = timeout_on_second
        and reg = example_region and start = example_start and c = 0 and t = None]
      example_blocks run_timeout by blast
  have d2: "dispatch_outcome
        [[air_block (location block_A)], [air_block (location block_B)],
         [air_block (location block_C)]]
        (Inr 200 :: string error + int)
        [([air_block (location block_A)], Inr (200, ())),
         ([air_block (location block_B)], Inr (500, ())),
         ([air_block (location block_C)], Inr (200, ()) :: string + int \<times> unit)]"
    using bulk_operation_stops_only_on_exception [OF s2, where sb = rejects_second
        and reg = example_region and start = example_start and c = 0 and t = None]
      example_air_blocks run_clear_reject by blast
  show ?thesis
    using s1 d1 d2 example_blocks example_air_blocks run_timeout run_clear_reject by blast
qed

text \<open>
  C1 as stated fails. Over the three blocks of the example region with chunk size 1: when
  the second call raises a timeout, \<^verbatim>\<open>build_region\<close> raises that timeout instead of
  returning a result (the third chunk is indeed not dispatched); when the second call
  returns the failure status 500, the third chunk is dispatched all the same and
  \<^verbatim>\<open>build_region\<close> returns the status 200 of the third chunk.
\<close>

theorem build_region_failure_counterexample:
  "build_region (logged timeout_on_second) (0, []) example_region example_start (Some 1) None
     = (Inl (Raised ''timeout''),
        (2, [([block_A], Inr (200, ())), ([block_B], Inl ''timeout'')]))
   \<and> build_region (logged rejects_second) (0, []) example_region example_start (Some 1) None
     = (Inr 200,
        (3, [([block_A], Inr (200, ())), ([block_B], Inr (500, ())), ([block_C], Inr (200, ()))]))"
  by (simp add: build_region_def example_blocks split3 logged_def timeout_on_second_def
        rejects_second_def)

text \<open>
  C3. For every region of the schematic reader (the identifier of every non-air cell is
  namespace-qualified) and every start location, the bulk set creates a list of blocks
  without raising, and \<^verbatim>\<open>build_region\<close> is the bulk set of these blocks while
  \<^verbatim>\<open>clear_region\<close>, with the same connection, chunk size and timeout, is the bulk set of
  the same blocks with every one replaced by the air block at its location (name
  \<^verbatim>\<open>air\<close>, namespace \<^verbatim>\<open>minecraft\<close>, no state, no inventory): same cells, same locations,
  same order, same chunking, same loop, same outcome on failure.
\<close>

theorem clear_region_is_set_batch_of_air:
  fixes sb :: "('c, 'e, 'p) set_blocks"
  assumes "\<forall>cell \<in> set (non_air_cells reg). qualified_id (block_id (getitem reg cell))"
  shows "\<exists>blocks. create_blocks reg start None = (Inr blocks :: 'e error + block list)
           \<and> build_region sb c reg start ss t = set_batch sb c blocks ss t
           \<and> clear_region sb c reg start ss t
               = set_batch sb c
                   (map (\<lambda>b. \<lparr>namespace = ''minecraft'', name = ''air'', location = location b,
                              state = Map.empty, inventory = []\<rparr>) blocks) ss t"
proof -
  from create_blocks_qualified [OF assms, of start, where ?'e = 'e]
  obtain blocks where b: "create_blocks reg start None = (Inr blocks :: 'e error + block list)"
    by blast
  have loc: "map location blocks
          = map (cell_location (modify_start_location start reg)) (non_air_cells reg)"
    using b by (rule create_blocks_map_location)
  have "map (\<lambda>b. air_block (location b)) blocks = map air_block (map location blocks)"
    by (simp add: comp_def)
  also have "\<dots> = map air_block
                     (map (cell_location (modify_start_location start reg)) (non_air_cells reg))"
    by (simp only: loc)
  also have "\<dots> = map (\<lambda>cell. air_block (cell_location (modify_start_location start reg) cell))
                     (non_air_cells reg)"
    by (simp add: comp_def)
  finally have "create_blocks reg start (Some ''air'')
          = (Inr (map (\<lambda>b. air_block (location b)) blocks) :: 'e error + block list)"
    by (simp only: create_blocks_air)
  then have cl: "clear_region sb c reg start ss t
               = set_batch sb c (map (\<lambda>b. air_block (location b)) blocks) ss t"
    by (simp add: clear_region_set_batch)
  have bu: "build_region sb c reg start ss t = set_batch sb c blocks ss t"
    using b by (simp add: build_region_set_batch)
  show ?thesis
    using b bu cl [unfolded air_block_def] by (intro exI [of _ blocks] conjI)
qed

theorem clear_region_is_set_batch_of_air_witness:
  "non_air_cells example_region = [(- 1, 0, 1), (0, 0, 0), (0, 0, 1)]
   \<and> qualified_id ''minecraft:chest'' \<and> qualified_id ''minecraft:stone''
   \<and> qualified_id ''minecraft:oak_stairs''
   \<and> (\<exists>blocks. create_blocks example_region example_start None
                  = (Inr blocks :: string error + block list)
         \<and> build_region rejects_second 0 example_region example_start (Some 1) None
             = set_batch rejects_second 0 blocks (Some 1) None
         \<and> clear_region rejects_second 0 example_region example_start (Some 1) None
             = set_batch rejects_second 0
                 (map (\<lambda>b. \<lparr>namespace = ''minecraft'', name = ''air'', location = location b,
                            state = Map.empty, inventory = []\<rparr>) blocks) (Some 1) None)"
proof -
  have "qualified_id ''minecraft:chest''" "qualified_id ''minecraft:stone''"
    "qualified_id ''minecraft:oak_stairs''"
    by (simp_all add: qualified_id_def)
  then show ?thesis
    using clear_region_is_set_batch_of_air [OF example_qualified, of example_start
        rejects_second 0 "Some 1" None] example_cells
    by (intro conjI)
qed

text \<open>
  C6. A caller that supplies no chunk size gets the chunk size 10000: the bulk set and
  the bulk clear then behave as with \<^verbatim>\<open>split_size=10000\<close>. The block list is split
  (\<^verbatim>\<open>split_list\<close> does not raise) into \<open>\<lceil>n / 10000\<rceil>\<close> chunks of at most 10000 blocks
  each which, joined in order, are the block list; and these chunks are what the loop
  dispatches, in that order: every chunk that reaches the connection has at most 10000
  blocks, the chunks dispatched are an initial part of the block list, and they are the
  whole block list when the operation returns a status.
\<close>

theorem default_split_size:
  fixes sb :: "('c, 'e, 'p) set_blocks"
  shows "build_region sb c reg start None t = build_region sb c reg start (Some 10000) t
       \<and> clear_region sb c reg start None t = clear_region sb c reg start (Some 10000) t
       \<and> (\<exists>chunks. split_list blocks 10000 = (Inr chunks :: 'e error + block list list)
            \<and> int (length chunks) = \<lceil>real (length blocks) / 10000\<rceil>
            \<and> (\<forall>ch \<in> set chunks. length ch \<le> 10000)
            \<and> concat chunks = blocks
            \<and> (create_blocks reg start None = (Inr blocks :: 'e error + block list) \<longrightarrow>
               build_region (logged sb) (c, []) reg start None t = (out, (c', calls)) \<longrightarrow>
                 dispatch_outcome chunks out calls
                 \<and> (\<forall>x \<in> set calls. length (fst x) \<le> 10000)
                 \<and> prefix (concat (map fst calls)) blocks
                 \<and> (\<forall>status. out = Inr status \<longrightarrow> concat (map fst calls) = blocks))
            \<and> (create_blocks reg start (Some ''air'') = (Inr blocks :: 'e error + block list) \<longrightarrow>
               clear_region (logged sb) (c, []) reg start None t = (out, (c', calls)) \<longrightarrow>
                 dispatch_outcome chunks out calls
                 \<and> (\<forall>x \<in> set calls. length (fst x) \<le> 10000)
                 \<and> prefix (concat (map fst calls)) blocks
                 \<and> (\<forall>status. out = Inr status \<longrightarrow> concat (map fst calls) = blocks)))"
proof -
  have k: "(0::int) < 10000" by simp
  obtain chunks where s: "split_list blocks 10000 = (Inr chunks :: 'e error + block list list)"
    by (simp add: split_list_pos)
  then have s': "split_list blocks (case None of None \<Rightarrow> 10000 | Some k \<Rightarrow> k)
                   = (Inr chunks :: 'e error + block list list)"
    by simp
  have "length chunks = range_length 0 (int (length blocks)) 10000"
    using s by (auto simp: split_list_pos)
  then have n: "int (length chunks) = \<lceil>real (length blocks) / 10000\<rceil>"
    using range_length_ceiling [OF k, of "length blocks"] by simp
  have le: "\<forall>ch \<in> set chunks. length ch \<le> 10000"
    using split_list_chunk_length [OF k s] by fastforce
  have cc: "concat chunks = blocks"
    using k s by (rule split_list_concat)
  have b: "dispatch_outcome chunks out calls
            \<and> (\<forall>x \<in> set calls. length (fst x) \<le> 10000)
            \<and> prefix (concat (map fst calls)) blocks
            \<and> (\<forall>status. out = Inr status \<longrightarrow> concat (map fst calls) = blocks)"
    if "create_blocks reg start None = (Inr blocks :: 'e error + block list)"
      and "build_region (logged sb) (c, []) reg start None t = (out, (c', calls))"
  proof -
    from that have "set_batch (logged sb) (c, []) blocks None t = (out, (c', calls))"
      by (simp add: build_region_set_batch)
    then have d: "dispatch_outcome chunks out calls"
      using s' by (rule set_batch_logged)
    then show ?thesis using dispatch_outcome_default_chunks [OF d s] by simp
  qed
  have cl: "dispatch_outcome chunks out calls
            \<and> (\<forall>x \<in> set calls. length (fst x) \<le> 10000)
            \<and> prefix (concat (map fst calls)) blocks
            \<and> (\<forall>status. out = Inr status \<longrightarrow> concat (map fst calls) = blocks)"
    if "create_blocks reg start (Some ''air'') = (Inr blocks :: 'e error + block list)"
      and "clear_region (logged sb) (c, []) reg start None t = (out, (c', calls))"
  proof -
    from that have "set_batch (logged sb) (c, []) blocks None t = (out, (c', calls))"
      by (simp add: clear_region_set_batch)
    then have d: "dispatch_outcome chunks out calls"
      using s' by (rule set_batch_logged)
    then show ?thesis using dispatch_outcome_default_chunks [OF d s] by simp
  qed
  have e1: "build_region sb c reg start None t = build_region sb c reg start (Some 10000) t"
    by (simp add: build_region_def split: sum.splits)
  have e2: "clear_region sb c reg start None t = clear_region sb c reg start (Some 10000) t"
    by (simp add: clear_region_def split: sum.splits)
  show ?thesis
  proof (intro conjI)
    show "build_region sb c reg start None t = build_region sb c reg start (Some 10000) t"
      by (rule e1)
    show "clear_region sb c reg start None t = clear_region sb c reg start (Some 10000) t"
      by (rule e2)
    show "\<exists>chunks. split_list blocks 10000 = (Inr chunks :: 'e error + block list list)
            \<and> int (length chunks) = \<lceil>real (length blocks) / 10000\<rceil>
            \<and> (\<forall>ch \<in> set chunks. length ch \<le> 10000)
            \<and> concat chunks = blocks
            \<and> (create_blocks reg start None = (Inr blocks :: 'e error + block list) \<longrightarrow>
               build_region (logged sb) (c, []) reg start None t = (out, (c', calls)) \<longrightarrow>
                 dispatch_outcome chunks out calls
                 \<and> (\<forall>x \<in> set calls. length (fst x) \<le> 10000)
                 \<and> prefix (concat (map fst calls)) blocks
                 \<and> (\<forall>status. out = Inr status \<longrightarrow> concat (map fst calls) = blocks))
            \<and> (create_blocks reg start (Some ''air'') = (Inr blocks :: 'e error + block list) \<longrightarrow>
               clear_region (logged sb) (c, []) reg start None t = (out, (c', calls)) \<longrightarrow>
                 dispatch_outcome chunks out calls
                 \<and> (\<forall>x \<in> set calls. length (fst x) \<le> 10000)
                 \<and> prefix (concat (map fst calls)) blocks
                 \<and> (\<forall>status. out = Inr status \<longrightarrow> concat (map fst calls) = blocks))"
      using s n le cc b cl by (intro exI [of _ chunks] conjI impI) simp_all
  qed
qed


theorem default_split_size_witness:
  "create_blocks long_region example_start None
     = (Inr long_blocks :: string error + block list)
   \<and> length long_blocks = 10001
   \<and> split_list long_blocks 10000
     = (Inr [take 10000 long_blocks, drop 10000 long_blocks] :: string error + block list list)
   \<and> length (take 10000 long_blocks) = 10000 \<and> length (drop 10000 long_blocks) = 1
   \<and> build_region (logged always_ok) (0, []) long_region example_start None None
     = (Inr 200, (2, [(take 10000 long_blocks, Inr (200, ())),
                      (drop 10000 long_blocks, Inr (200, ()))]))
   \<and> dispatch_outcome [take 10000 long_blocks, drop 10000 long_blocks]
        (Inr 200 :: string error + int)
        [(take 10000 long_blocks, Inr (200, ())),
         (drop 10000 long_blocks, Inr (200, ()) :: string + int \<times> unit)]
   \<and> create_blocks long_region example_start (Some ''air'')
     = (Inr long_air_blocks :: string error + block list)
   \<and> clear_region (logged always_ok) (0, []) long_region example_start None None
     = (Inr 200, (2, [(take 10000 long_air_blocks, Inr (200, ())),
                      (drop 10000 long_air_blocks, Inr (200, ()))]))
   \<and> dispatch_outcome [take 10000 long_air_blocks, drop 10000 long_air_blocks]
        (Inr 200 :: string error + int)
        [(take 10000 long_air_blocks, Inr (200, ())),
         (drop 10000 long_air_blocks, Inr (200, ()) :: string + int \<times> unit)]"
proof -
  let ?calls = "[(take 10000 long_blocks, Inr (200, ())),
                 (drop 10000 long_blocks, Inr (200, ()) :: string + int \<times> unit)]"
  let ?air_calls = "[(take 10000 long_air_blocks, Inr (200, ())),
                     (drop 10000 long_air_blocks, Inr (200, ()) :: string + int \<times> unit)]"
  note b = default_split_size [where sb = always_ok and c = 0 and reg = long_region
      and start = example_start and t = None and blocks = long_blocks
      and out = "Inr 200" and c' = 2 and calls = ?calls,
      THEN conjunct2, THEN conjunct2]
  note a = default_split_size [where sb = always_ok and c = 0 and reg = long_region
      and start = example_start and t = None and blocks = long_air_blocks
      and out = "Inr 200" and c' = 2 and calls = ?air_calls,
      THEN conjunct2, THEN conjunct2]
  from b obtain chunks where
    c: "split_list long_blocks 10000 = (Inr chunks :: string error + block list list)"
    and i: "create_blocks long_region example_start None
              = (Inr long_blocks :: string error + block list) \<longrightarrow>
            build_region (logged always_ok) (0, []) long_region example_start None None
              = (Inr 200, (2, ?calls)) \<longrightarrow>
            dispatch_outcome chunks (Inr 200 :: string error + int) ?calls
            \<and> (\<forall>x \<in> set ?calls. length (fst x) \<le> 10000)
            \<and> prefix (concat (map fst ?calls)) long_blocks
            \<and> (\<forall>status. (Inr 200 :: string error + int) = Inr status
                  \<longrightarrow> concat (map fst ?calls) = long_blocks)"
    by (elim exE conjE)
  from c have ch: "chunks = [take 10000 long_blocks, drop 10000 long_blocks]"
    by (simp add: long_split)
  have "dispatch_outcome chunks (Inr 200 :: string error + int) ?calls"
    by (rule i [THEN mp, OF long_create_blocks, THEN mp, OF long_run, THEN conjunct1])
  then have d1: "dispatch_outcome [take 10000 long_blocks, drop 10000 long_blocks]
              (Inr 200 :: string error + int) ?calls"
    by (simp only: ch)
  from a obtain air_chunks where
    c: "split_list long_air_blocks 10000 = (Inr air_chunks :: string error + block list list)"
    and i: "create_blocks long_region example_start (Some ''air'')
              = (Inr long_air_blocks :: string error + block list) \<longrightarrow>
            clear_region (logged always_ok) (0, []) long_region example_start None None
              = (Inr 200, (2, ?air_calls)) \<longrightarrow>
            dispatch_outcome air_chunks (Inr 200 :: string error + int) ?air_calls
            \<and> (\<forall>x \<in> set ?air_calls. length (fst x) \<le> 10000)
            \<and> prefix (concat (map fst ?air_calls)) long_air_blocks
            \<and> (\<forall>status. (Inr 200 :: string error + int) = Inr status
                  \<longrightarrow> concat (map fst ?air_calls) = long_air_blocks)"
    by (elim exE conjE)
  from c have ch: "air_chunks = [take 10000 long_air_blocks, drop 10000 long_air_blocks]"
    by (simp add: long_air_split)
  have "dispatch_outcome air_chunks (Inr 200 :: string error + int) ?air_calls"
    by (rule i [THEN mp, OF long_create_air_blocks, THEN mp, OF long_clear_run, THEN conjunct1])
  then have d2: "dispatch_outcome [take 10000 long_air_blocks, drop 10000 long_air_blocks]
              (Inr 200 :: string error + int) ?air_calls"
    by (simp only: ch)
  have l: "length (take 10000 long_blocks) = 10000" "length (drop 10000 long_blocks) = 1"
    by (simp_all add: length_long_blocks)
  show ?thesis
    using long_create_blocks long_split long_run long_create_air_blocks long_clear_run
      length_long_blocks l d1 d2
    by (intro conjI)
qed

text \<open>
  C9. \<^verbatim>\<open>build_region\<close> and \<^verbatim>\<open>clear_region\<close> return a status only when at least one chunk
  was dispatched, and the status is the one the last call of \<^verbatim>\<open>set_blocks\<close> returned.
  When the region has no non-air cell, the block list is empty, no chunk is dispatched
  (the connection is left as it was) and the operation raises instead of returning a
  status: \<^verbatim>\<open>UnboundLocalError\<close> from \<^verbatim>\<open>return result[0]\<close>, \<open>result\<close> never having been
  assigned (with \<^verbatim>\<open>split_size=0\<close> the \<^verbatim>\<open>ValueError\<close> of \<^verbatim>\<open>split_list\<close> comes first).
\<close>

theorem status_only_after_a_chunk:
  fixes sb :: "('c, 'e, 'p) set_blocks"
  shows "(build_region (logged sb) (c, []) reg start ss t = (Inr status, (c', calls)) \<longrightarrow>
            calls \<noteq> [] \<and> (\<exists>payload. snd (last calls) = Inr (status, payload)))
       \<and> (clear_region (logged sb) (c, []) reg start ss t = (Inr status, (c', calls)) \<longrightarrow>
            calls \<noteq> [] \<and> (\<exists>payload. snd (last calls) = Inr (status, payload)))
       \<and> (non_air_cells reg = [] \<longrightarrow>
            build_region sb c reg start ss t
              = (Inl (if ss = Some 0 then ValueError else UnboundLocalError), c)
          \<and> clear_region sb c reg start ss t
              = (Inl (if ss = Some 0 then ValueError else UnboundLocalError), c))"
proof (intro conjI impI)
  assume "build_region (logged sb) (c, []) reg start ss t = (Inr status, (c', calls))"
  then obtain blocks where "set_batch (logged sb) (c, []) blocks ss t = (Inr status, (c', calls))"
    by (auto simp: build_region_set_batch split: sum.splits)
  then have "calls \<noteq> [] \<and> (\<exists>payload. snd (last calls) = Inr (status, payload))"
    by (rule set_batch_status)
  then show "calls \<noteq> []" "\<exists>payload. snd (last calls) = Inr (status, payload)"
    by simp_all
next
  assume "clear_region (logged sb) (c, []) reg start ss t = (Inr status, (c', calls))"
  then obtain blocks where "set_batch (logged sb) (c, []) blocks ss t = (Inr status, (c', calls))"
    by (auto simp: clear_region_set_batch split: sum.splits)
  then have "calls \<noteq> [] \<and> (\<exists>payload. snd (last calls) = Inr (status, payload))"
    by (rule set_batch_status)
  then show "calls \<noteq> []" "\<exists>payload. snd (last calls) = Inr (status, payload)"
    by simp_all
next
  assume "non_air_cells reg = []"
  then show "build_region sb c reg start ss t
              = (Inl (if ss = Some 0 then ValueError else UnboundLocalError), c)"
    by (simp add: build_region_set_batch create_blocks_no_cells set_batch_Nil)
next
  assume "non_air_cells reg = []"
  then show "clear_region sb c reg start ss t
              = (Inl (if ss = Some 0 then ValueError else UnboundLocalError), c)"
    by (simp add: clear_region_set_batch create_blocks_no_cells set_batch_Nil)
qed

theorem status_only_after_a_chunk_witness:
  "build_region (logged always_ok) (0, []) example_region example_start None None
     = (Inr 200, (1, [([block_A, block_B, block_C], Inr (200, ()))]))
   \<and> [([block_A, block_B, block_C], Inr (200, ()) :: string + int \<times> unit)] \<noteq> []
   \<and> clear_region (logged always_ok) (0, []) example_region example_start None None
     = (Inr 200, (1, [(map (\<lambda>b. air_block (location b)) [block_A, block_B, block_C],
                       Inr (200, ()))]))
   \<and> non_air_cells air_region = []
   \<and> build_region always_ok 0 air_region example_start None None = (Inl UnboundLocalError, 0)
   \<and> clear_region always_ok 0 air_region example_start None None = (Inl UnboundLocalError, 0)"
proof -
  note a = status_only_after_a_chunk [where sb = always_ok and c = 0 and reg = example_region
      and start = example_start and ss = None and t = None and status = 200 and c' = 1
      and calls = "[([block_A, block_B, block_C], Inr (200, ()))]"]
  note b = status_only_after_a_chunk [where sb = always_ok and c = 0 and reg = air_region
      and start = example_start and ss = None and t = None]
  have "[([block_A, block_B, block_C], Inr (200, ()) :: string + int \<times> unit)] \<noteq> []"
    using a run_default_build by blast
  moreover have "build_region always_ok 0 air_region example_start None None
                   = (Inl UnboundLocalError, 0)"
    and "clear_region always_ok 0 air_region example_start None None
                   = (Inl UnboundLocalError, 0)"
    using b air_cells by simp_all
  ultimately show ?thesis
    using run_default_build run_default_clear air_cells by simp
qed

section \<open>The claims about block creation and locations\<close>

text \<open>
  C5. The cells \<^verbatim>\<open>create_blocks\<close> keeps are exactly the cells of the three ranges whose
  identifier is not \<^verbatim>\<open>minecraft:air\<close>; an air cell gives neither a block nor an error.
  For every region of the schematic reader (the identifier of every non-air cell is
  namespace-qualified) and every start location, \<^verbatim>\<open>create_blocks(region, start)\<close> returns
  one block per non-air cell, in the order of the loops, whose namespace and name joined
  by \<^verbatim>\<open>:\<close> are the identifier of the cell, whose state is the property map of the cell
  (each property name mapped to its value, empty when the cell has no properties) and
  whose inventory is empty.
\<close>

theorem create_blocks_of_non_air_cells:
  assumes "\<forall>cell \<in> set (non_air_cells reg). qualified_id (block_id (getitem reg cell))"
  shows "set (non_air_cells reg) =
           {(x, y, z). x \<in> set (xrange reg) \<and> y \<in> set (yrange reg) \<and> z \<in> set (zrange reg)
                       \<and> block_id (getitem reg (x, y, z)) \<noteq> ''minecraft:air''}
       \<and> (\<exists>blocks. create_blocks reg start None = (Inr blocks :: 'e error + block list)
             \<and> length blocks = length (non_air_cells reg)
             \<and> (\<forall>i < length blocks.
                   namespace (blocks ! i) @ '':'' @ name (blocks ! i)
                     = block_id (getitem reg (non_air_cells reg ! i))
                 \<and> state (blocks ! i)
                     = (case nbt_Properties (getitem reg (non_air_cells reg ! i)) of
                          None \<Rightarrow> Map.empty
                        | Some kvs \<Rightarrow> map_of (rev kvs))
                 \<and> inventory (blocks ! i) = []))"
proof
  show "set (non_air_cells reg) =
           {(x, y, z). x \<in> set (xrange reg) \<and> y \<in> set (yrange reg) \<and> z \<in> set (zrange reg)
                       \<and> block_id (getitem reg (x, y, z)) \<noteq> ''minecraft:air''}"
    by (rule set_non_air_cells)
next
  show "\<exists>blocks. create_blocks reg start None = (Inr blocks :: 'e error + block list)
             \<and> length blocks = length (non_air_cells reg)
             \<and> (\<forall>i < length blocks.
                   namespace (blocks ! i) @ '':'' @ name (blocks ! i)
                     = block_id (getitem reg (non_air_cells reg ! i))
                 \<and> state (blocks ! i)
                     = (case nbt_Properties (getitem reg (non_air_cells reg ! i)) of
                          None \<Rightarrow> Map.empty
                        | Some kvs \<Rightarrow> map_of (rev kvs))
                 \<and> inventory (blocks ! i) = [])"
    using assms by (rule create_blocks_qualified)
qed

theorem create_blocks_of_non_air_cells_witness:
  "non_air_cells example_region = [(- 1, 0, 1), (0, 0, 0), (0, 0, 1)]
   \<and> qualified_id ''minecraft:chest'' \<and> qualified_id ''minecraft:stone''
   \<and> qualified_id ''minecraft:oak_stairs''
   \<and> (\<exists>blocks. create_blocks example_region example_start None
                  = (Inr blocks :: unit error + block list)
         \<and> length blocks = length (non_air_cells example_region)
         \<and> (\<forall>i < length blocks.
               namespace (blocks ! i) @ '':'' @ name (blocks ! i)
                 = block_id (getitem example_region (non_air_cells example_region ! i))
             \<and> state (blocks ! i)
                 = (case nbt_Properties (getitem example_region (non_air_cells example_region ! i)) of
                      None \<Rightarrow> Map.empty
                    | Some kvs \<Rightarrow> map_of (rev kvs))
             \<and> inventory (blocks ! i) = []))"
proof -
  have "qualified_id ''minecraft:chest''" "qualified_id ''minecraft:stone''"
    "qualified_id ''minecraft:oak_stairs''"
    by (simp_all add: qualified_id_def)
  then show ?thesis
    using create_blocks_of_non_air_cells [OF example_qualified, of example_start,
        where ?'e = unit, THEN conjunct2] example_cells
    by (intro conjI)
qed

text \<open>
  C7. For a block \<open>b\<close> and lengths of at least 1, \<^verbatim>\<open>fill\<close> returns exactly
  \<open>xl * yl * zl\<close> blocks; each of them has the namespace, name, state and inventory of
  \<open>b\<close> and the location of \<open>b\<close> moved by some \<open>(dx, dy, dz)\<close> with \<open>0 \<le> dx < xl\<close>,
  \<open>0 \<le> dy < yl\<close>, \<open>0 \<le> dz < zl\<close>, and every such offset occurs. The blocks and their
  locations are built anew from the fields of \<open>b\<close>; \<^verbatim>\<open>fill\<close> assigns to no field of \<open>b\<close>
  or of its location, which is why the function of the model has \<open>b\<close> as an argument
  only and returns nothing but the list.
\<close>

theorem fill_box:
  assumes "1 \<le> xl" and "1 \<le> yl" and "1 \<le> zl"
  shows "int (length (fill b xl yl zl)) = xl * yl * zl
       \<and> (\<forall>c \<in> set (fill b xl yl zl).
            \<exists>dx dy dz. 0 \<le> dx \<and> dx < xl \<and> 0 \<le> dy \<and> dy < yl \<and> 0 \<le> dz \<and> dz < zl
              \<and> location c = \<lparr>loc_x = loc_x (location b) + dx,
                               loc_y = loc_y (location b) + dy,
                               loc_z = loc_z (location b) + dz\<rparr>
              \<and> namespace c = namespace b \<and> name c = name b
              \<and> state c = state b \<and> inventory c = inventory b)
       \<and> (\<forall>dx dy dz. 0 \<le> dx \<and> dx < xl \<and> 0 \<le> dy \<and> dy < yl \<and> 0 \<le> dz \<and> dz < zl \<longrightarrow>
            \<lparr>namespace = namespace b, name = name b,
             location = \<lparr>loc_x = loc_x (location b) + dx,
                         loc_y = loc_y (location b) + dy,
                         loc_z = loc_z (location b) + dz\<rparr>,
             state = state b, inventory = inventory b\<rparr> \<in> set (fill b xl yl zl))"
proof (intro conjI)
  show "int (length (fill b xl yl zl)) = xl * yl * zl"
    using assms by (simp add: length_fill nat_mult_distrib)
next
  show "\<forall>c \<in> set (fill b xl yl zl).
            \<exists>dx dy dz. 0 \<le> dx \<and> dx < xl \<and> 0 \<le> dy \<and> dy < yl \<and> 0 \<le> dz \<and> dz < zl
              \<and> location c = \<lparr>loc_x = loc_x (location b) + dx,
                               loc_y = loc_y (location b) + dy,
                               loc_z = loc_z (location b) + dz\<rparr>
              \<and> namespace c = namespace b \<and> name c = name b
              \<and> state c = state b \<and> inventory c = inventory b"
    unfolding set_fill by fastforce
next
  show "\<forall>dx dy dz. 0 \<le> dx \<and> dx < xl \<and> 0 \<le> dy \<and> dy < yl \<and> 0 \<le> dz \<and> dz < zl \<longrightarrow>
            \<lparr>namespace = namespace b, name = name b,
             location = \<lparr>loc_x = loc_x (location b) + dx,
                         loc_y = loc_y (location b) + dy,
                         loc_z = loc_z (location b) + dz\<rparr>,
             state = state b, inventory = inventory b\<rparr> \<in> set (fill b xl yl zl)"
    unfolding set_fill by blast
qed

theorem fill_box_witness:
  "(1::int) \<le> 2 \<and> (1::int) \<le> 1
   \<and> int (length (fill block_B 2 1 2)) = 2 * 1 * 2
   \<and> \<lparr>namespace = ''minecraft'', name = ''stone'',
       location = \<lparr>loc_x = - 209, loc_y = 71, loc_z = - 565\<rparr>,
       state = Map.empty, inventory = []\<rparr> \<in> set (fill block_B 2 1 2)"
proof -
  have h: "(1::int) \<le> 2" "(1::int) \<le> 1" by simp_all
  note f = fill_box [OF h(1) h(2) h(1), of block_B]
  have "\<lparr>namespace = namespace block_B, name = name block_B,
             location = \<lparr>loc_x = loc_x (location block_B) + 1,
                         loc_y = loc_y (location block_B) + 0,
                         loc_z = loc_z (location block_B) + 1\<rparr>,
             state = state block_B, inventory = inventory block_B\<rparr> \<in> set (fill block_B 2 1 2)"
    using f [THEN conjunct2, THEN conjunct2, THEN spec, THEN spec, THEN spec, of 1 0 1]
    by simp
  then have "\<lparr>namespace = ''minecraft'', name = ''stone'',
       location = \<lparr>loc_x = - 209, loc_y = 71, loc_z = - 565\<rparr>,
       state = Map.empty, inventory = []\<rparr> \<in> set (fill block_B 2 1 2)"
    by (simp add: block_B_def)
  then show ?thesis using f by simp
qed

text \<open>
  C8. Whenever \<^verbatim>\<open>create_blocks\<close> returns, with or without a default block name, the
  block it made for the non-air cell \<open>(x, y, z)\<close> lies at
  \<open>(start.x + x - min_x - 1, start.y + y - min_y - 1, start.z + z - min_z - 1)\<close>: one less
  on every axis than the start location plus the offset of the cell from the minimum
  corner of the region.
\<close>

theorem create_blocks_locations:
  assumes "create_blocks reg start default_block_name = (Inr blocks :: 'e error + block list)"
  shows "map location blocks =
           map (\<lambda>(x, y, z). \<lparr>loc_x = loc_x start + x - min_x reg - 1,
                              loc_y = loc_y start + y - min_y reg - 1,
                              loc_z = loc_z start + z - min_z reg - 1\<rparr>)
               (non_air_cells reg)"
proof -
  have "cell_location (modify_start_location start reg) =
          (\<lambda>(x, y, z). \<lparr>loc_x = loc_x start + x - min_x reg - 1,
                         loc_y = loc_y start + y - min_y reg - 1,
                         loc_z = loc_z start + z - min_z reg - 1\<rparr>)"
    by (auto simp: cell_location_def modify_start_location_def fun_eq_iff)
  then show ?thesis
    using create_blocks_map_location [OF assms] by simp
qed

theorem create_blocks_locations_witness:
  "create_blocks example_region example_start None
     = (Inr [block_A, block_B, block_C] :: unit error + block list)
   \<and> non_air_cells example_region = [(- 1, 0, 1), (0, 0, 0), (0, 0, 1)]
   \<and> map location [block_A, block_B, block_C]
     = [\<lparr>loc_x = - 210 + (- 1) - (- 1) - 1, loc_y = 72 + 0 - 0 - 1, loc_z = - 565 + 1 - 0 - 1\<rparr>,
        \<lparr>loc_x = - 210 + 0 - (- 1) - 1, loc_y = 72 + 0 - 0 - 1, loc_z = - 565 + 0 - 0 - 1\<rparr>,
        \<lparr>loc_x = - 210 + 0 - (- 1) - 1, loc_y = 72 + 0 - 0 - 1, loc_z = - 565 + 1 - 0 - 1\<rparr>]"
proof -
  have e: "create_blocks example_region example_start None
     = (Inr [block_A, block_B, block_C] :: unit error + block list)"
    by (rule example_blocks)
  have "map location [block_A, block_B, block_C]
     = [\<lparr>loc_x = - 210 + (- 1) - (- 1) - 1, loc_y = 72 + 0 - 0 - 1, loc_z = - 565 + 1 - 0 - 1\<rparr>,
        \<lparr>loc_x = - 210 + 0 - (- 1) - 1, loc_y = 72 + 0 - 0 - 1, loc_z = - 565 + 0 - 0 - 1\<rparr>,
        \<lparr>loc_x = - 210 + 0 - (- 1) - 1, loc_y = 72 + 0 - 0 - 1, loc_z = - 565 + 1 - 0 - 1\<rparr>]"
    using create_blocks_locations [OF e]
    by (simp add: example_cells) (simp add: example_region_def example_start_def)
  then show ?thesis using e example_cells by (intro conjI)
qed

section \<open>The claim about the operations of the connection\<close>

text \<open>
  C4, against the operations as the spec describes them. Whatever the request
  (\<^verbatim>\<open>execute_commands\<close>, \<^verbatim>\<open>set_blocks\<close>, \<^verbatim>\<open>get_blocks\<close> or \<^verbatim>\<open>get_players\<close>): when the server
  answers, the operation returns a pair whose element 0 is the status code of the answer
  and whose element 1 is its payload, also when the status reports a rejection; the
  operation aborts exactly when authentication fails or the transport is lost.
\<close>

theorem exposed_operation_result:
  "(case server req of
      Response status payload \<Rightarrow>
        (\<exists>r. exposed_operation server req = Inr r \<and> fst r = status \<and> snd r = payload)
    | AuthenticationFailure \<Rightarrow> exposed_operation server req = Inl AuthenticationError
    | TransportLoss \<Rightarrow> exposed_operation server req = Inl ConnectionError)
   \<and> ((\<exists>e. exposed_operation server req = Inl e)
        \<longleftrightarrow> server req = AuthenticationFailure \<or> server req = TransportLoss)"
  by (cases "server req") (simp_all add: exposed_operation_def)

end
